theory Spec2Isabelle
  imports Main "HOL-Library.AList" "HOL-Library.Sublist"
begin

section \<open>Python values\<close>

text \<open>
  A Python \<open>str\<close> is a sequence of Unicode code points, so it is modelled as a list of
  naturals. \<open>lit\<close> turns an ASCII literal into that representation; the two pictographs
  of the escalation messages are written as their code points (U+1F4E7 and U+23F0).
\<close>

type_synonym pystr = "nat list"

definition lit :: "string \<Rightarrow> pystr" where
  "lit s = map of_char s"

text \<open>JSON-like values, as they are stored in the free-form \<open>metadata\<close> dictionary.\<close>

datatype pyval =
    PNone
  | PBool bool
  | PInt int
  | PStr pystr
  | PList "pyval list"
  | PDict "(pystr \<times> pyval) list"

text \<open>
  A \<open>dict\<close> with string keys keeps insertion order: an association list. The statement
  \<open>d[k] = v\<close> replaces the value of an existing key in place and appends a new key,
  which is what \<open>AList.update\<close> does; \<open>map_of\<close> reads a key.
\<close>

type_synonym pydict = "(pystr \<times> pyval) list"

definition setitem :: "pydict \<Rightarrow> pystr \<Rightarrow> pyval \<Rightarrow> pydict" where
  "setitem d k v = AList.update k v d"

text \<open>
  A raised exception is represented by what the handlers of this program depend on: its
  text \<open>str(e)\<close>, and whether \<open>except Exception\<close> catches it. \<open>Exception msg\<close> is an
  instance of \<open>Exception\<close> (of any subclass), \<open>BaseException msg\<close> an exception
  outside \<open>Exception\<close>, such as \<open>KeyboardInterrupt\<close> or \<open>SystemExit\<close>.
\<close>

datatype exn = Exception pystr | BaseException pystr

fun str_exn :: "exn \<Rightarrow> pystr" where
  "str_exn (Exception msg) = msg"
| "str_exn (BaseException msg) = msg"

subsection \<open>\<open>str.strip\<close> and \<open>str.lower\<close>\<close>

text \<open>
  \<open>str.strip()\<close> without argument removes leading and trailing whitespace, where
  whitespace is what \<open>str.isspace\<close> accepts: the table of CPython.
\<close>

definition isspace :: "nat \<Rightarrow> bool" where
  "isspace c =
     ((9 \<le> c \<and> c \<le> 13) \<or> (28 \<le> c \<and> c \<le> 32) \<or> c = 133 \<or> c = 160 \<or> c = 5760 \<or>
      (8192 \<le> c \<and> c \<le> 8202) \<or> c = 8232 \<or> c = 8233 \<or> c = 8239 \<or> c = 8287 \<or> c = 12288)"

definition strip :: "pystr \<Rightarrow> pystr" where
  "strip s = rev (dropWhile isspace (rev (dropWhile isspace s)))"

text \<open>
  \<open>str.lower()\<close> on a string of ASCII characters maps \<open>A\<close>..\<open>Z\<close> to \<open>a\<close>..\<open>z\<close> and
  leaves everything else alone. On a string with a character beyond ASCII it applies the
  Unicode case mapping of the Python runtime, which is not part of this program: it
  is the parameter \<open>unicode_lower\<close>, and every result below holds for each choice of it.
\<close>

definition ascii_lower :: "nat \<Rightarrow> nat" where
  "ascii_lower c = (if 65 \<le> c \<and> c \<le> 90 then c + 32 else c)"

definition lower :: "(pystr \<Rightarrow> pystr) \<Rightarrow> pystr \<Rightarrow> pystr" where
  "lower unicode_lower s =
     (if list_all (\<lambda>c. c < 128) s then map ascii_lower s else unicode_lower s)"

subsection \<open>\<open>print\<close>\<close>

text \<open>
  Standard output is a UTF-8 text stream with the strict error handler: the program
  prints pictographs from its first line of output on, so it only runs where they can be
  encoded. \<open>print(s)\<close> then fails exactly when \<open>s\<close> holds a surrogate code point
  (U+D800 to U+DFFF), with a \<open>UnicodeEncodeError\<close>, an instance of \<open>Exception\<close>, whose
  text names the first run of surrogates: the character when the run has length one,
  the positions otherwise. What is written is not recorded.
\<close>

definition surrogate :: "nat \<Rightarrow> bool" where
  "surrogate c = (0xD800 \<le> c \<and> c \<le> 0xDFFF)"

definition encodable :: "pystr \<Rightarrow> bool" where
  "encodable s = list_all (\<lambda>c. \<not> surrogate c) s"

fun decimal :: "nat \<Rightarrow> pystr" where
  "decimal n = (if n < 10 then [48 + n] else decimal (n div 10) @ [48 + n mod 10])"

definition hex_digit :: "nat \<Rightarrow> nat" where
  "hex_digit d = (if d < 10 then 48 + d else 87 + d)"

definition hex4 :: "nat \<Rightarrow> pystr" where
  "hex4 c = [hex_digit (c div 4096 mod 16), hex_digit (c div 256 mod 16),
            hex_digit (c div 16 mod 16), hex_digit (c mod 16)]"

definition codec_error :: "pystr \<Rightarrow> pystr" where
  "codec_error s =
     (let start = length (takeWhile (\<lambda>c. \<not> surrogate c) s);
          run = takeWhile surrogate (drop start s)
      in [39] @ lit ''utf-8'' @ [39] @ lit '' codec can't encode '' @
         (case run of
            [c] \<Rightarrow> lit ''character '' @ [39, 92] @ lit ''u'' @ hex4 c @ [39] @
                   lit '' in position '' @ decimal start
          | _ \<Rightarrow> lit ''characters in position '' @ decimal start @ lit ''-'' @
                 decimal (start + length run - 1)) @
         lit '': surrogates not allowed'')"

definition print :: "pystr \<Rightarrow> exn + unit" where
  "print s = (if encodable s then Inr () else Inl (Exception (codec_error s)))"

text \<open>\<open>sep.join(parts)\<close>.\<close>

fun join :: "pystr \<Rightarrow> pystr list \<Rightarrow> pystr" where
  "join sep [] = []"
| "join sep [x] = x"
| "join sep (x # y # ys) = x @ sep @ join sep (y # ys)"

section \<open>External collaborators\<close>

text \<open>
  The chat models and the retriever are calls to outside services. A call takes the
  state of the outside world \<open>'w\<close> and returns the new one together with either the
  exception it raised (\<open>Inl\<close>) or its result (\<open>Inr\<close>). Nothing is assumed about them:
  they may fail, answer anything, and answer differently each time.
\<close>

type_synonym ('a, 'w) call = "'w \<Rightarrow> (exn + 'a) \<times> 'w"

text \<open>
  The \<open>content\<close> of a chat message is a string or a list of content blocks; only a
  string has a \<open>strip\<close> method.
\<close>

datatype message_content = Text pystr | Blocks "pyval list"

datatype ai_message = AIMessage (content: message_content)

datatype document = Document (page_content: pystr) (doc_metadata: pyval)

text \<open>
  \<open>RAGChain\<close>: \<open>retriever\<close> is \<open>self.retriever\<close>; \<open>llm\<close> is the tail
  \<open>self.llm | StrOutputParser()\<close> of the chain, from the rendered prompt to the answer
  text.
\<close>

record 'w RAGChain =
  retriever :: "pystr \<Rightarrow> (document list, 'w) call"
  llm :: "pystr \<Rightarrow> (pystr, 'w) call"

text \<open>\<open>RAGWorkflow\<close>, with the case mapping of the runtime (see \<open>lower\<close>).\<close>

record 'w RAGWorkflow =
  rag_chain :: "'w RAGChain"
  classifier_llm :: "pystr \<Rightarrow> (ai_message, 'w) call"
  unicode_lower :: "pystr \<Rightarrow> pystr"

section \<open>The RAG chain (\<open>rag_chain.py\<close>)\<close>

definition prompt_template :: "pystr \<Rightarrow> pystr \<Rightarrow> pystr" where
  "prompt_template context question =
     lit ''You are a helpful customer support assistant for TechGear, an electronics company.\<newline>'' @
     lit ''Use the following context to answer the customer's question accurately and concisely.\<newline>'' @
     lit ''If the answer is not in the context, politely say you don't have that information.\<newline>'' @
     lit ''\<newline>Context:\<newline>'' @ context @
     lit ''\<newline>\<newline>Question: '' @ question @
     lit ''\<newline>\<newline>Answer:''"

definition format_docs :: "document list \<Rightarrow> pystr" where
  "format_docs docs = join (lit ''\<newline>\<newline>'') (map page_content docs)"

text \<open>
  \<open>RAGChain.invoke\<close> runs the chain of \<open>_build_chain\<close>: the retriever piped into
  \<open>format_docs\<close> gives the context, the query passes through as the question, the
  template is rendered and handed to the model.
\<close>

definition rag_chain_invoke :: "'w RAGChain \<Rightarrow> pystr \<Rightarrow> (pystr, 'w) call" where
  "rag_chain_invoke self query w =
     (case retriever self query w of
        (Inl e, w1) \<Rightarrow> (Inl e, w1)
      | (Inr docs, w1) \<Rightarrow> llm self (prompt_template (format_docs docs) query) w1)"

record rag_result =
  rr_query :: pystr
  rr_context :: pystr
  rr_answer :: pystr
  rr_sources :: "pyval list"

definition get_context_and_answer :: "'w RAGChain \<Rightarrow> pystr \<Rightarrow> (rag_result, 'w) call" where
  "get_context_and_answer self query w =
     (case retriever self query w of
        (Inl e, w1) \<Rightarrow> (Inl e, w1)
      | (Inr docs, w1) \<Rightarrow>
          (let context = join (lit ''\<newline>\<newline>'') (map page_content docs) in
           case rag_chain_invoke self query w1 of
             (Inl e, w2) \<Rightarrow> (Inl e, w2)
           | (Inr answer, w2) \<Rightarrow>
               (Inr \<lparr>rr_query = query, rr_context = context, rr_answer = answer,
                     rr_sources = map doc_metadata docs\<rparr>, w2)))"

section \<open>The workflow (\<open>langgraph_workflow.py\<close>)\<close>

text \<open>
  \<open>GraphState\<close> is a typed dictionary with four required keys, so it is a record: a
  state always has a category, and the default of \<open>state.get("category", "unknown")\<close>
  in \<open>route_query\<close> and \<open>escalation_node\<close> is never used.

  A \<open>print\<close> of a constant text cannot fail (lemma \<open>constant_prints\<close> below lists the
  constant texts of this module) and is left out; a \<open>print\<close> of a text that holds the
  query, the category or an exception is part of the definitions.
\<close>

record graph_state =
  query :: pystr
  category :: pystr
  answer :: pystr
  metadata :: pydict

definition classification_prompt :: "pystr \<Rightarrow> pystr" where
  "classification_prompt q =
     lit ''Classify the following customer query into ONE category only.\<newline>'' @
     lit ''        \<newline>Categories:\<newline>'' @
     lit ''- \"products\": Questions about product features, prices, specifications, warranties, or comparisons\<newline>'' @
     lit ''- \"returns\": Questions about return policy, refund process, or exchange procedures\<newline>'' @
     lit ''- \"general\": General support questions, contact information, or business hours\<newline>'' @
     lit ''- \"unknown\": Queries that are out of scope, unclear, or not related to our products/services\<newline>'' @
     lit ''\<newline>Query: '' @ q @
     lit ''\<newline>\<newline>Respond with ONLY the category name (products, returns, general, or unknown). No explanation.''"

definition valid_categories :: "pystr list" where
  "valid_categories = [lit ''products'', lit ''returns'', lit ''general'', lit ''unknown'']"

text \<open>\<open>response.content.strip()\<close>: an \<open>AttributeError\<close> when the content is a list.\<close>

fun content_strip :: "message_content \<Rightarrow> exn + pystr" where
  "content_strip (Text s) = Inr (strip s)"
| "content_strip (Blocks bs) =
     Inl (Exception ([39] @ lit ''list'' @ [39] @ lit '' object has no attribute '' @
                     [39] @ lit ''strip'' @ [39]))"

text \<open>
  The body of the \<open>try\<close> block of \<open>classifier_node\<close>. Its \<open>print\<close> comes after the
  two assignments to the state; were it to fail, the handler would overwrite both.
\<close>

definition classifier_try :: "'w RAGWorkflow \<Rightarrow> graph_state \<Rightarrow> (graph_state, 'w) call" where
  "classifier_try self state w =
     (case classifier_llm self (classification_prompt (query state)) w of
        (Inl e, w1) \<Rightarrow> (Inl e, w1)
      | (Inr response, w1) \<Rightarrow>
          (case content_strip (content response) of
             Inl e \<Rightarrow> (Inl e, w1)
           | Inr stripped \<Rightarrow>
               (let category = lower (unicode_lower self) stripped;
                    category = (if category \<notin> set valid_categories then lit ''unknown''
                                else category)
                in case print ([0x1F50D] @ lit '' Classified as: '' @ category) of
                     Inl e \<Rightarrow> (Inl e, w1)
                   | Inr u \<Rightarrow>
                       (Inr (state\<lparr>category := category,
                                   metadata := [(lit ''classifier'', PStr (lit ''success''))]\<rparr>),
                        w1))))"

text \<open>
  \<open>classifier_node\<close>: the \<open>try\<close> block and its \<open>except Exception\<close> handler. The
  handler does not catch an exception outside \<open>Exception\<close>, and it prints the exception
  before it touches the state, so a failure of that \<open>print\<close> leaves the node.
\<close>

definition classifier_node :: "'w RAGWorkflow \<Rightarrow> graph_state \<Rightarrow> (graph_state, 'w) call" where
  "classifier_node self state w =
     (case classifier_try self state w of
        (Inr state', w1) \<Rightarrow> (Inr state', w1)
      | (Inl (BaseException msg), w1) \<Rightarrow> (Inl (BaseException msg), w1)
      | (Inl (Exception msg), w1) \<Rightarrow>
          (case print ([0x274C] @ lit '' Classification error: '' @ msg) of
             Inl e \<Rightarrow> (Inl e, w1)
           | Inr u \<Rightarrow>
               (Inr (state\<lparr>category := lit ''unknown'',
                           metadata := [(lit ''classifier'', PStr (lit ''error'')),
                                        (lit ''error'', PStr msg)]\<rparr>), w1)))"

definition fallback_answer :: pystr where
  "fallback_answer =
     lit ''I apologize, but I'm having trouble accessing the information right now. '' @
     lit ''Please try again or contact support.''"

text \<open>
  \<open>rag_responder_node\<close>, with the same shape of handler as \<open>classifier_node\<close>.
\<close>

definition rag_responder_node :: "'w RAGWorkflow \<Rightarrow> graph_state \<Rightarrow> (graph_state, 'w) call" where
  "rag_responder_node self state w =
     (case get_context_and_answer (rag_chain self) (query state) w of
        (Inr result, w1) \<Rightarrow>
          (Inr (state\<lparr>answer := rr_answer result,
                      metadata := setitem (metadata state) (lit ''rag'')
                        (PDict [(lit ''sources'', PList (rr_sources result)),
                                (lit ''context_used'', PBool True)])\<rparr>), w1)
      | (Inl (BaseException msg), w1) \<Rightarrow> (Inl (BaseException msg), w1)
      | (Inl (Exception msg), w1) \<Rightarrow>
          (case print ([0x274C] @ lit '' RAG error: '' @ msg) of
             Inl e \<Rightarrow> (Inl e, w1)
           | Inr u \<Rightarrow>
               (Inr (state\<lparr>answer := fallback_answer,
                           metadata := setitem (metadata state) (lit ''rag'')
                             (PDict [(lit ''error'', PStr msg)])\<rparr>), w1)))"

text \<open>The two messages of \<open>escalation_node\<close>.\<close>

definition escalation_message_general :: pystr where
  "escalation_message_general =
     lit ''For general inquiries and support:\<newline>\<newline>'' @
     [0x1F4E7] @ lit '' Email: support@techgear.com\<newline>'' @
     [0x23F0] @ lit '' Support Hours: Monday-Saturday, 9AM-6PM IST\<newline>\<newline>'' @
     lit ''Our team will be happy to assist you with your questions!''"

definition escalation_message_other :: pystr where
  "escalation_message_other =
     lit ''I apologize, but I'm unable to assist with that specific request.\<newline>\<newline>'' @
     lit ''For personalized support, please contact our team:\<newline>'' @
     [0x1F4E7] @ lit '' Email: support@techgear.com\<newline>'' @
     [0x23F0] @ lit '' Support Hours: Monday-Saturday, 9AM-6PM IST\<newline>\<newline>'' @
     lit ''Our support team will be happy to help you!''"

definition escalation_node :: "graph_state \<Rightarrow> graph_state" where
  "escalation_node state =
     (let category = category state;
          escalation_message =
            (if category = lit ''general'' then escalation_message_general
             else escalation_message_other)
      in state\<lparr>answer := escalation_message,
               metadata := setitem (metadata state) (lit ''escalation'') (PBool True)\<rparr>)"

datatype node_name = classifier | rag_responder | escalation

definition route_query :: "graph_state \<Rightarrow> node_name" where
  "route_query state =
     (let category = category state in
      if category \<in> set [lit ''products'', lit ''returns''] then rag_responder
      else escalation)"

subsection \<open>The graph of \<open>_build_graph\<close> and its execution\<close>

datatype target = Node node_name | END

definition entry_point :: node_name where
  "entry_point = classifier"

text \<open>
  The conditional edge out of \<open>classifier\<close> calls \<open>route_query\<close> and maps the name it
  returns to the node of that name; the two other nodes have a plain edge to \<open>END\<close>.
\<close>

fun edges :: "node_name \<Rightarrow> graph_state \<Rightarrow> target" where
  "edges classifier state = Node (route_query state)"
| "edges rag_responder state = END"
| "edges escalation state = END"

fun run_node :: "'w RAGWorkflow \<Rightarrow> node_name \<Rightarrow> graph_state \<Rightarrow> (graph_state, 'w) call" where
  "run_node self classifier state w = classifier_node self state w"
| "run_node self rag_responder state w = rag_responder_node self state w"
| "run_node self escalation state w = (Inr (escalation_node state), w)"

text \<open>
  The compiled graph runs the entry node, then follows the edges until \<open>END\<close>; an
  exception of a node ends the run, and so does the step limit of the graph library
  (25 steps unless configured, and this program does not configure it).
\<close>

definition recursion_limit :: nat where
  "recursion_limit = 25"

fun run_graph :: "nat \<Rightarrow> 'w RAGWorkflow \<Rightarrow> node_name \<Rightarrow> graph_state \<Rightarrow> (graph_state, 'w) call" where
  "run_graph 0 self n state w = (Inl (Exception (lit ''Recursion limit reached'')), w)"
| "run_graph (Suc k) self n state w =
     (case run_node self n state w of
        (Inl e, w1) \<Rightarrow> (Inl e, w1)
      | (Inr state', w1) \<Rightarrow>
          (case edges n state' of
             END \<Rightarrow> (Inr state', w1)
           | Node m \<Rightarrow> run_graph k self m state' w1))"

definition app_invoke :: "'w RAGWorkflow \<Rightarrow> graph_state \<Rightarrow> (graph_state, 'w) call" where
  "app_invoke self state w = run_graph recursion_limit self entry_point state w"

text \<open>\<open>invoke\<close> prints the query first, outside any \<open>try\<close>.\<close>

definition invoke :: "'w RAGWorkflow \<Rightarrow> pystr \<Rightarrow> (graph_state, 'w) call" where
  "invoke self q w =
     (case print ([10, 0x1F680] @ lit '' Processing query: '' @ q) of
        Inl e \<Rightarrow> (Inl e, w)
      | Inr u \<Rightarrow>
          (let initial_state = \<lparr>query = q, category = [], answer = [], metadata = []\<rparr>
           in app_invoke self initial_state w))"

section \<open>The request boundary (\<open>api/routes.py\<close>)\<close>

text \<open>
  \<open>ChatRequest\<close> declares one required field, \<open>query\<close>, a string of length at least
  one. The web framework validates the JSON body against this declaration before it
  calls the handler and answers with status 422 itself when the validation fails.
\<close>

fun ChatRequest :: "pyval \<Rightarrow> pystr option" where
  "ChatRequest (PDict body) =
     (case map_of body (lit ''query'') of
        Some (PStr s) \<Rightarrow> if 1 \<le> length s then Some s else None
      | _ \<Rightarrow> None)"
| "ChatRequest _ = None"

record ChatResponse =
  cr_query :: pystr
  cr_answer :: pystr
  cr_category :: "pystr option"
  cr_metadata :: "pydict option"

datatype http_response =
    OK ChatResponse
  | RequestValidationError
  | HTTPException nat pystr

text \<open>
  The module variable \<open>workflow\<close> is \<open>None\<close> until \<open>set_workflow\<close> stores an object
  there; the handler only calls its \<open>invoke\<close> method. The \<open>HTTPException\<close>s the
  handler raises are its answers to the caller and are results here; an exception of the
  workflow that \<open>except Exception\<close> does not catch leaves the handler (\<open>Inl\<close>).
\<close>

type_synonym 'w workflow = "pystr \<Rightarrow> (graph_state, 'w) call"

definition chat :: "'w workflow option \<Rightarrow> pystr \<Rightarrow> (http_response, 'w) call" where
  "chat workflow request_query w =
     (case workflow of
        None \<Rightarrow>
          (Inr (HTTPException 503
                  (lit ''Chatbot service is not initialized. Please try again later.'')), w)
      | Some workflow_invoke \<Rightarrow>
          (case workflow_invoke request_query w of
             (Inr result, w1) \<Rightarrow>
               (Inr (OK \<lparr>cr_query = query result, cr_answer = answer result,
                         cr_category = Some (category result),
                         cr_metadata = Some (metadata result)\<rparr>), w1)
           | (Inl (Exception msg), w1) \<Rightarrow>
               (Inr (HTTPException 500 (lit ''Error processing query: '' @ msg)), w1)
           | (Inl (BaseException msg), w1) \<Rightarrow> (Inl (BaseException msg), w1)))"

definition post_chat :: "'w workflow option \<Rightarrow> pyval \<Rightarrow> (http_response, 'w) call" where
  "post_chat workflow body w =
     (case ChatRequest body of
        None \<Rightarrow> (Inr RequestValidationError, w)
      | Some request_query \<Rightarrow> chat workflow request_query w)"

text \<open>The status the caller sees; 422 is what the framework sends for a rejected body.\<close>

fun status_code :: "http_response \<Rightarrow> nat" where
  "status_code (OK r) = 200"
| "status_code RequestValidationError = 422"
| "status_code (HTTPException code detail) = code"

section \<open>Stub collaborators\<close>

text \<open>
  Test doubles for the outside services. Their world is the number of calls made so far.
  \<open>stub_call r\<close> counts the call and returns \<open>r\<close>, whatever the argument and the world.
\<close>

definition stub_call :: "exn + 'a \<Rightarrow> ('a, nat) call" where
  "stub_call r w = (r, Suc w)"

definition stub_workflow ::
  "exn + ai_message \<Rightarrow> exn + document list \<Rightarrow> exn + pystr \<Rightarrow> nat RAGWorkflow" where
  "stub_workflow classified retrieved generated =
     \<lparr>rag_chain = \<lparr>retriever = (\<lambda>q. stub_call retrieved), llm = (\<lambda>p. stub_call generated)\<rparr>,
      classifier_llm = (\<lambda>p. stub_call classified),
      unicode_lower = (\<lambda>s. s)\<rparr>"

text \<open>
  A retriever that answers differently on each call (the first call of a run finds
  chunk 0, every later one chunk 1), and a model that repeats its prompt.
\<close>

definition chunk :: "nat \<Rightarrow> document" where
  "chunk i = Document (if i = 0 then lit ''SmartWatch Pro X: 15,999''
                       else lit ''Returns: within 7 days'')
                      (PDict [(lit ''source'', PStr (lit ''./product_info.txt'')),
                              (lit ''chunk_id'', PInt (int i))])"

definition flaky_retriever :: "pystr \<Rightarrow> (document list, nat) call" where
  "flaky_retriever q w = (Inr [chunk (if w = 0 then 0 else 1)], Suc w)"

definition echo_llm :: "pystr \<Rightarrow> (pystr, nat) call" where
  "echo_llm p w = (Inr p, Suc w)"

text \<open>
  A collaborator is deterministic when its result does not depend on the world it is
  called in.
\<close>

definition deterministic :: "('a \<Rightarrow> ('b, 'w) call) \<Rightarrow> bool" where
  "deterministic f = (\<forall>x w w'. fst (f x w) = fst (f x w'))"

text \<open>
  An exception is handled by the nodes when \<open>except Exception\<close> catches it and its text
  can be printed; a collaborator raises only handled exceptions when it raises nothing else.
\<close>

fun handled :: "exn \<Rightarrow> bool" where
  "handled (Exception msg) = encodable msg"
| "handled (BaseException msg) = False"

definition raises_only_handled :: "('a \<Rightarrow> ('b, 'w) call) \<Rightarrow> bool" where
  "raises_only_handled f = (\<forall>x w e. fst (f x w) = Inl e \<longrightarrow> handled e)"

section \<open>Auxiliary facts\<close>

subsection \<open>Strings and printing\<close>

lemma lit_eq_iff: "lit a = lit b \<longleftrightarrow> a = b"
  unfolding lit_def by (rule inj_map_eq_map) (rule inj_of_char)

lemma lit_append: "lit (a @ b) = lit a @ lit b"
  by (simp add: lit_def)

lemma lit_eq_Nil_iff: "lit a = [] \<longleftrightarrow> a = []"
  by (simp add: lit_def)

lemma length_lit: "length (lit s) = length s"
  by (simp add: lit_def)

lemma unknown_valid: "lit ''unknown'' \<in> set valid_categories"
  by (simp add: valid_categories_def)

lemma of_char_less_256: "(of_char c :: nat) < 256"
proof -
  have "(of_char c :: nat) = of_char c mod 256"
    by simp
  also have "\<dots> < 256"
    by (rule mod_less_divisor) simp
  finally show ?thesis .
qed

lemma encodable_Nil: "encodable []"
  by (simp add: encodable_def)

lemma encodable_append: "encodable (a @ b) \<longleftrightarrow> encodable a \<and> encodable b"
  by (simp add: encodable_def)

lemma encodable_lit: "encodable (lit s)"
proof -
  have "\<not> surrogate (of_char c)" for c :: char
    unfolding surrogate_def using of_char_less_256 [of c] by linarith
  then show ?thesis
    by (simp add: encodable_def lit_def list_all_iff)
qed

lemma encodable_Cons: "encodable (c # s) \<longleftrightarrow> \<not> surrogate c \<and> encodable s"
  by (simp add: encodable_def)

text \<open>The constant texts the workflow module prints.\<close>

lemma constant_prints:
  "print ([0x2705] @ lit '' LangGraph workflow compiled successfully'') = Inr ()"
  "print ([0x1F4DA] @ lit '' Retrieving context and generating answer...'') = Inr ()"
  "print ([0x1F53C] @ lit '' Query escalated to support'') = Inr ()"
  "print ([0x2192] @ lit '' Routing to RAG Responder'') = Inr ()"
  "print ([0x2192] @ lit '' Routing to Escalation'') = Inr ()"
  "print ([0x2705] @ lit '' Answer generated\<newline>'') = Inr ()"
  by (simp_all add: print_def encodable_append encodable_lit encodable_Cons encodable_Nil
        surrogate_def)

lemma valid_category_encodable: "c \<in> set valid_categories \<Longrightarrow> encodable c"
  by (auto simp: valid_categories_def encodable_lit)

lemma print_classified:
  "c \<in> set valid_categories \<Longrightarrow> print (0x1F50D # lit '' Classified as: '' @ c) = Inr ()"
  by (simp add: print_def encodable_append encodable_lit encodable_Cons encodable_Nil
        surrogate_def valid_category_encodable)

lemma print_classification_error:
  "print (0x274C # lit '' Classification error: '' @ msg) =
     (if encodable msg then Inr ()
      else Inl (Exception (codec_error (0x274C # lit '' Classification error: '' @ msg))))"
  by (simp add: print_def encodable_append encodable_lit encodable_Cons encodable_Nil
        surrogate_def)

lemma print_rag_error:
  "print (0x274C # lit '' RAG error: '' @ msg) =
     (if encodable msg then Inr ()
      else Inl (Exception (codec_error (0x274C # lit '' RAG error: '' @ msg))))"
  by (simp add: print_def encodable_append encodable_lit encodable_Cons encodable_Nil
        surrogate_def)

lemma print_processing_query:
  "print (10 # 0x1F680 # lit '' Processing query: '' @ q) =
     (if encodable q then Inr ()
      else Inl (Exception (codec_error (10 # 0x1F680 # lit '' Processing query: '' @ q))))"
  by (simp add: print_def encodable_append encodable_lit encodable_Cons encodable_Nil
        surrogate_def)

subsection \<open>The Classify node\<close>

lemma classifier_node_text:
  assumes "classifier_llm self (classification_prompt (query state)) w = (Inr (AIMessage (Text raw)), w1)"
  shows "classifier_node self state w =
           (Inr (state\<lparr>category :=
                         (if lower (unicode_lower self) (strip raw) \<in> set valid_categories
                          then lower (unicode_lower self) (strip raw) else lit ''unknown''),
                       metadata := [(lit ''classifier'', PStr (lit ''success''))]\<rparr>), w1)"
  using assms
  by (simp add: classifier_node_def classifier_try_def Let_def print_classified unknown_valid)

lemma classifier_node_blocks:
  assumes "classifier_llm self (classification_prompt (query state)) w = (Inr (AIMessage (Blocks bs)), w1)"
  shows "classifier_node self state w =
           (Inr (state\<lparr>category := lit ''unknown'',
                       metadata := [(lit ''classifier'', PStr (lit ''error'')),
                                    (lit ''error'',
                                     PStr ([39] @ lit ''list'' @ [39] @
                                           lit '' object has no attribute '' @
                                           [39] @ lit ''strip'' @ [39]))]\<rparr>), w1)"
  using assms
  by (simp add: classifier_node_def classifier_try_def print_classification_error
        encodable_append encodable_lit encodable_Cons encodable_Nil surrogate_def)

lemma classifier_node_raises:
  assumes "classifier_llm self (classification_prompt (query state)) w = (Inl (Exception msg), w1)"
    and "encodable msg"
  shows "classifier_node self state w =
           (Inr (state\<lparr>category := lit ''unknown'',
                       metadata := [(lit ''classifier'', PStr (lit ''error'')),
                                    (lit ''error'', PStr msg)]\<rparr>), w1)"
  using assms by (simp add: classifier_node_def classifier_try_def print_classification_error)

lemma classifier_node_unprintable:
  assumes "classifier_llm self (classification_prompt (query state)) w = (Inl (Exception msg), w1)"
    and "\<not> encodable msg"
  shows "classifier_node self state w =
           (Inl (Exception (codec_error (0x274C # lit '' Classification error: '' @ msg))), w1)"
  using assms by (simp add: classifier_node_def classifier_try_def print_classification_error)

lemma classifier_node_uncaught:
  assumes "classifier_llm self (classification_prompt (query state)) w = (Inl (BaseException msg), w1)"
  shows "classifier_node self state w = (Inl (BaseException msg), w1)"
  using assms by (simp add: classifier_node_def classifier_try_def)

lemma call_cases:
  fixes f :: "('a, 'w) call"
  obtains (Raises) e w1 where "f w = (Inl e, w1)" | (Returns) x w1 where "f w = (Inr x, w1)"
  by (cases "f w") (metis sum.exhaust)

lemma classifier_node_cases:
  obtains (Str) raw w1 where
      "classifier_llm self (classification_prompt (query state)) w = (Inr (AIMessage (Text raw)), w1)"
  | (Blk) bs w1 where
      "classifier_llm self (classification_prompt (query state)) w = (Inr (AIMessage (Blocks bs)), w1)"
  | (Handled) msg w1 where
      "classifier_llm self (classification_prompt (query state)) w = (Inl (Exception msg), w1)"
      "encodable msg"
  | (Unprintable) msg w1 where
      "classifier_llm self (classification_prompt (query state)) w = (Inl (Exception msg), w1)"
      "\<not> encodable msg"
  | (Uncaught) msg w1 where
      "classifier_llm self (classification_prompt (query state)) w = (Inl (BaseException msg), w1)"
proof (cases "classifier_llm self (classification_prompt (query state))" w rule: call_cases)
  case (Raises e w1)
  show ?thesis
  proof (cases e)
    case (Exception msg)
    with Raises Handled Unprintable show ?thesis by (cases "encodable msg") simp_all
  next
    case (BaseException msg)
    with Raises Uncaught show ?thesis by simp
  qed
next
  case (Returns m w1)
  obtain c where m: "m = AIMessage c" by (cases m)
  show ?thesis
  proof (cases c)
    case (Text raw)
    with Returns m Str show ?thesis by simp
  next
    case (Blocks bs)
    with Returns m Blk show ?thesis by simp
  qed
qed

text \<open>Whenever the node returns, these hold of the state and the world it returns.\<close>

lemma classifier_node_Inr:
  assumes "classifier_node self state w = (Inr s, w')"
  shows "query s = query state \<and> answer s = answer state \<and> category s \<in> set valid_categories \<and>
         w' = snd (classifier_llm self (classification_prompt (query state)) w)"
proof (cases self state w rule: classifier_node_cases)
  case (Str raw w1)
  from classifier_node_text [OF this] assms Str show ?thesis
    by (auto simp: unknown_valid)
next
  case (Blk bs w1)
  from classifier_node_blocks [OF this] assms Blk show ?thesis
    by (auto simp: unknown_valid)
next
  case (Handled msg w1)
  from classifier_node_raises [OF this] assms Handled show ?thesis
    by (auto simp: unknown_valid)
next
  case (Unprintable msg w1)
  from classifier_node_unprintable [OF this] assms show ?thesis by simp
next
  case (Uncaught msg w1)
  from classifier_node_uncaught [OF this] assms show ?thesis by simp
qed

lemma classifier_node_returns:
  assumes "\<forall>e w1. classifier_llm self (classification_prompt (query state)) w = (Inl e, w1) \<longrightarrow> handled e"
  shows "\<exists>s w'. classifier_node self state w = (Inr s, w')"
proof (cases self state w rule: classifier_node_cases)
  case (Str raw w1)
  from classifier_node_text [OF this] show ?thesis by simp
next
  case (Blk bs w1)
  from classifier_node_blocks [OF this] show ?thesis by simp
next
  case (Handled msg w1)
  from classifier_node_raises [OF this] show ?thesis by simp
next
  case (Unprintable msg w1)
  with assms show ?thesis by auto
next
  case (Uncaught msg w1)
  with assms show ?thesis by auto
qed

subsection \<open>The chain\<close>

lemma gca_retrieval_raises:
  assumes "retriever c q w = (Inl e, w1)"
  shows "get_context_and_answer c q w = (Inl e, w1)"
  using assms by (simp add: get_context_and_answer_def)

lemma gca_chain_retrieval_raises:
  assumes "retriever c q w = (Inr docs, w1)" and "retriever c q w1 = (Inl e, w2)"
  shows "get_context_and_answer c q w = (Inl e, w2)"
  using assms by (simp add: get_context_and_answer_def rag_chain_invoke_def)

lemma gca_generation_raises:
  assumes "retriever c q w = (Inr docs, w1)" and "retriever c q w1 = (Inr docs2, w2)"
    and "llm c (prompt_template (format_docs docs2) q) w2 = (Inl e, w3)"
  shows "get_context_and_answer c q w = (Inl e, w3)"
  using assms by (simp add: get_context_and_answer_def rag_chain_invoke_def)

lemma gca_success:
  assumes "retriever c q w = (Inr docs, w1)" and "retriever c q w1 = (Inr docs2, w2)"
    and "llm c (prompt_template (format_docs docs2) q) w2 = (Inr a, w3)"
  shows "get_context_and_answer c q w =
           (Inr \<lparr>rr_query = q, rr_context = format_docs docs, rr_answer = a,
                 rr_sources = map doc_metadata docs\<rparr>, w3)"
  using assms by (simp add: get_context_and_answer_def rag_chain_invoke_def format_docs_def)

lemma gca_cases:
  obtains
    (Retrieval_raises) e w1 where "retriever c q w = (Inl e, w1)"
  | (Chain_retrieval_raises) docs w1 e w2 where
      "retriever c q w = (Inr docs, w1)" "retriever c q w1 = (Inl e, w2)"
  | (Generation_raises) docs w1 docs2 w2 e w3 where
      "retriever c q w = (Inr docs, w1)" "retriever c q w1 = (Inr docs2, w2)"
      "llm c (prompt_template (format_docs docs2) q) w2 = (Inl e, w3)"
  | (Success) docs w1 docs2 w2 a w3 where
      "retriever c q w = (Inr docs, w1)" "retriever c q w1 = (Inr docs2, w2)"
      "llm c (prompt_template (format_docs docs2) q) w2 = (Inr a, w3)"
proof (cases "retriever c q" w rule: call_cases)
  case (Raises e w1)
  then show ?thesis by (rule Retrieval_raises)
next
  case first: (Returns docs w1)
  show ?thesis
  proof (cases "retriever c q" w1 rule: call_cases)
    case (Raises e w2)
    with first show ?thesis by (rule Chain_retrieval_raises)
  next
    case second: (Returns docs2 w2)
    show ?thesis
    proof (cases "llm c (prompt_template (format_docs docs2) q)" w2 rule: call_cases)
      case (Raises e w3)
      with first second show ?thesis by (rule Generation_raises)
    next
      case (Returns a w3)
      with first second show ?thesis by (rule Success)
    qed
  qed
qed

lemma rag_chain_invoke_retrieved:
  assumes "retriever c q w = (Inr docs, w1)"
  shows "rag_chain_invoke c q w = llm c (prompt_template (format_docs docs) q) w1"
  using assms by (simp add: rag_chain_invoke_def)

lemma gca_retrieved:
  assumes "retriever c q w = (Inr docs, w1)" and "retriever c q w1 = (Inr docs2, w2)"
  shows "get_context_and_answer c q w =
           (case llm c (prompt_template (format_docs docs2) q) w2 of
              (Inl e, w3) \<Rightarrow> (Inl e, w3)
            | (Inr a, w3) \<Rightarrow>
                (Inr \<lparr>rr_query = q, rr_context = format_docs docs, rr_answer = a,
                      rr_sources = map doc_metadata docs\<rparr>, w3))"
  using assms
  by (simp add: get_context_and_answer_def rag_chain_invoke_def format_docs_def
        split: prod.splits sum.splits)

lemma format_docs_Cons:
  "format_docs (d # ds) =
     (if ds = [] then page_content d else page_content d @ lit ''\<newline>\<newline>'' @ format_docs ds)"
  by (cases ds) (simp_all add: format_docs_def)

lemma gca_success_inv:
  assumes "get_context_and_answer c q w = (Inr result, w')"
  shows "\<exists>docs w1 docs2 w2.
           retriever c q w = (Inr docs, w1) \<and> retriever c q w1 = (Inr docs2, w2) \<and>
           llm c (prompt_template (format_docs docs2) q) w2 = (Inr (rr_answer result), w') \<and>
           rr_sources result = map doc_metadata docs \<and> rr_context result = format_docs docs \<and>
           rr_query result = q"
proof (cases c q w rule: gca_cases)
  case (Retrieval_raises e w1)
  from gca_retrieval_raises [OF this] assms show ?thesis by simp
next
  case (Chain_retrieval_raises docs w1 e w2)
  from gca_chain_retrieval_raises [OF this] assms show ?thesis by simp
next
  case (Generation_raises docs w1 docs2 w2 e w3)
  from gca_generation_raises [OF this] assms show ?thesis by simp
next
  case (Success docs w1 docs2 w2 a w3)
  from gca_success [OF this] assms have "result = \<lparr>rr_query = q, rr_context = format_docs docs,
      rr_answer = a, rr_sources = map doc_metadata docs\<rparr>" and "w' = w3"
    by simp_all
  with Success show ?thesis by simp
qed

lemma deterministicD: "deterministic f \<Longrightarrow> fst (f x w) = fst (f x w')"
  by (simp add: deterministic_def)

lemma deterministic_same_docs:
  assumes "deterministic (retriever c)"
    and "retriever c q w = (Inr docs, w1)" and "retriever c q w1 = (Inr docs2, w2)"
  shows "docs2 = docs"
  using deterministicD [OF assms(1), of q w w1] assms(2,3) by simp

subsection \<open>The Respond node\<close>

lemma map_of_setitem: "map_of (setitem d k v) k = Some v"
  by (simp add: setitem_def update_Some_unfold)

lemma rag_responder_node_success:
  assumes "get_context_and_answer (rag_chain self) (query state) w = (Inr result, w1)"
  shows "rag_responder_node self state w =
           (Inr (state\<lparr>answer := rr_answer result,
                       metadata := setitem (metadata state) (lit ''rag'')
                         (PDict [(lit ''sources'', PList (rr_sources result)),
                                 (lit ''context_used'', PBool True)])\<rparr>), w1)"
  using assms by (simp add: rag_responder_node_def)

lemma rag_responder_node_failure:
  assumes "get_context_and_answer (rag_chain self) (query state) w = (Inl (Exception msg), w1)"
    and "encodable msg"
  shows "rag_responder_node self state w =
           (Inr (state\<lparr>answer := fallback_answer,
                       metadata := setitem (metadata state) (lit ''rag'')
                         (PDict [(lit ''error'', PStr msg)])\<rparr>), w1)"
  using assms by (simp add: rag_responder_node_def print_rag_error)

lemma rag_responder_node_unprintable:
  assumes "get_context_and_answer (rag_chain self) (query state) w = (Inl (Exception msg), w1)"
    and "\<not> encodable msg"
  shows "rag_responder_node self state w =
           (Inl (Exception (codec_error (0x274C # lit '' RAG error: '' @ msg))), w1)"
  using assms by (simp add: rag_responder_node_def print_rag_error)

lemma rag_responder_node_uncaught:
  assumes "get_context_and_answer (rag_chain self) (query state) w = (Inl (BaseException msg), w1)"
  shows "rag_responder_node self state w = (Inl (BaseException msg), w1)"
  using assms by (simp add: rag_responder_node_def)

lemma rag_responder_node_cases:
  obtains (Success) result w1 where
      "get_context_and_answer (rag_chain self) (query state) w = (Inr result, w1)"
  | (Handled) msg w1 where
      "get_context_and_answer (rag_chain self) (query state) w = (Inl (Exception msg), w1)"
      "encodable msg"
  | (Unprintable) msg w1 where
      "get_context_and_answer (rag_chain self) (query state) w = (Inl (Exception msg), w1)"
      "\<not> encodable msg"
  | (Uncaught) msg w1 where
      "get_context_and_answer (rag_chain self) (query state) w = (Inl (BaseException msg), w1)"
proof (cases "get_context_and_answer (rag_chain self) (query state)" w rule: call_cases)
  case (Raises e w1)
  show ?thesis
  proof (cases e)
    case (Exception msg)
    with Raises Handled Unprintable show ?thesis by (cases "encodable msg") simp_all
  next
    case (BaseException msg)
    with Raises Uncaught show ?thesis by simp
  qed
next
  case (Returns result w1)
  then show ?thesis by (rule Success)
qed

lemma fallback_answer_nonempty: "fallback_answer \<noteq> []"
  by (simp add: fallback_answer_def lit_def)

lemma escalation_messages_nonempty:
  "escalation_message_general \<noteq> []" "escalation_message_other \<noteq> []"
  by (simp_all add: escalation_message_general_def escalation_message_other_def lit_def)

text \<open>Whenever the node returns, these hold of the state and the world it returns.\<close>

lemma rag_responder_node_Inr:
  assumes "rag_responder_node self state w = (Inr s, w')"
  shows "query s = query state \<and> category s = category state \<and>
         w' = snd (get_context_and_answer (rag_chain self) (query state) w) \<and>
         (case fst (get_context_and_answer (rag_chain self) (query state) w) of
            Inr result \<Rightarrow> answer s = rr_answer result
          | Inl e \<Rightarrow> answer s = fallback_answer)"
proof (cases self state w rule: rag_responder_node_cases)
  case (Success result w1)
  from rag_responder_node_success [OF this] assms Success show ?thesis by auto
next
  case (Handled msg w1)
  from rag_responder_node_failure [OF this] assms Handled show ?thesis by auto
next
  case (Unprintable msg w1)
  from rag_responder_node_unprintable [OF this] assms show ?thesis by simp
next
  case (Uncaught msg w1)
  from rag_responder_node_uncaught [OF this] assms show ?thesis by simp
qed

lemma rag_responder_node_returns:
  assumes "\<forall>e w1. get_context_and_answer (rag_chain self) (query state) w = (Inl e, w1) \<longrightarrow> handled e"
  shows "\<exists>s w'. rag_responder_node self state w = (Inr s, w')"
proof (cases self state w rule: rag_responder_node_cases)
  case (Success result w1)
  from rag_responder_node_success [OF this] show ?thesis by simp
next
  case (Handled msg w1)
  from rag_responder_node_failure [OF this] show ?thesis by simp
next
  case (Unprintable msg w1)
  with assms show ?thesis by auto
next
  case (Uncaught msg w1)
  with assms show ?thesis by auto
qed

text \<open>An exception of \<open>get_context_and_answer\<close> is one of the retriever or of the model.\<close>

lemma gca_raises_origin:
  assumes "get_context_and_answer c q w = (Inl e, w')"
  shows "(\<exists>w0. fst (retriever c q w0) = Inl e) \<or> (\<exists>p w0. fst (llm c p w0) = Inl e)"
proof (cases c q w rule: gca_cases)
  case (Retrieval_raises e' w1)
  from gca_retrieval_raises [OF this] assms have "e' = e" by simp
  with Retrieval_raises have "fst (retriever c q w) = Inl e" by simp
  then show ?thesis by (intro disjI1 exI)
next
  case (Chain_retrieval_raises docs w1 e' w2)
  from gca_chain_retrieval_raises [OF this] assms have "e' = e" by simp
  with Chain_retrieval_raises have "fst (retriever c q w1) = Inl e" by simp
  then show ?thesis by (intro disjI1 exI)
next
  case (Generation_raises docs w1 docs2 w2 e' w3)
  from gca_generation_raises [OF this] assms have "e' = e" by simp
  with Generation_raises
  have "fst (llm c (prompt_template (format_docs docs2) q) w2) = Inl e" by simp
  then show ?thesis by (intro disjI2 exI)
next
  case (Success docs w1 docs2 w2 a w3)
  from gca_success [OF this] assms show ?thesis by simp
qed

lemma raises_only_handledD: "raises_only_handled f \<Longrightarrow> fst (f x w) = Inl e \<Longrightarrow> handled e"
  by (auto simp: raises_only_handled_def)

lemma gca_raises_handled:
  assumes "raises_only_handled (retriever c)" and "raises_only_handled (llm c)"
    and "get_context_and_answer c q w = (Inl e, w')"
  shows "handled e"
  using gca_raises_origin [OF assms(3)] assms(1,2) by (auto dest: raises_only_handledD)

subsection \<open>Running the graph\<close>

lemma route_query_eq:
  "route_query state =
     (if category state = lit ''products'' \<or> category state = lit ''returns''
      then rag_responder else escalation)"
  by (simp add: route_query_def)

lemma run_graph_rag_responder:
  "run_graph (Suc k) self rag_responder state w = rag_responder_node self state w"
  by (simp split: prod.splits sum.splits)

lemma run_graph_classifier:
  "run_graph (Suc (Suc k)) self classifier state w =
     (case classifier_node self state w of
        (Inl e, w1) \<Rightarrow> (Inl e, w1)
      | (Inr s1, w1) \<Rightarrow>
          (if category s1 = lit ''products'' \<or> category s1 = lit ''returns''
           then rag_responder_node self s1 w1
           else (Inr (escalation_node s1), w1)))"
  by (simp add: route_query_eq run_graph_rag_responder del: run_graph.simps(2) split: prod.splits sum.splits)
    (simp add: route_query_eq split: prod.splits sum.splits)

lemma app_invoke_unfold:
  "app_invoke self state w =
     (case classifier_node self state w of
        (Inl e, w1) \<Rightarrow> (Inl e, w1)
      | (Inr s1, w1) \<Rightarrow>
          (if category s1 = lit ''products'' \<or> category s1 = lit ''returns''
           then rag_responder_node self s1 w1
           else (Inr (escalation_node s1), w1)))"
proof -
  have limit: "recursion_limit = Suc (Suc 23)"
    by (simp add: recursion_limit_def)
  show ?thesis
    unfolding app_invoke_def entry_point_def limit
    by (rule run_graph_classifier)
qed

lemma invoke_unprintable:
  assumes "\<not> encodable q"
  shows "invoke self q w =
           (Inl (Exception (codec_error (10 # 0x1F680 # lit '' Processing query: '' @ q))), w)"
  using assms by (simp add: invoke_def print_processing_query)

lemma invoke_unfold:
  assumes "encodable q"
  shows "invoke self q w =
     (case classifier_node self \<lparr>query = q, category = [], answer = [], metadata = []\<rparr> w of
        (Inl e, w1) \<Rightarrow> (Inl e, w1)
      | (Inr s1, w1) \<Rightarrow>
          (if category s1 = lit ''products'' \<or> category s1 = lit ''returns''
           then rag_responder_node self s1 w1
           else (Inr (escalation_node s1), w1)))"
  using assms by (simp add: invoke_def print_processing_query app_invoke_unfold)

lemma escalation_node_fields:
  "query (escalation_node state) = query state"
  "category (escalation_node state) = category state"
  "answer (escalation_node state) =
     (if category state = lit ''general'' then escalation_message_general
      else escalation_message_other)"
  "metadata (escalation_node state) = setitem (metadata state) (lit ''escalation'') (PBool True)"
  by (simp_all add: escalation_node_def Let_def)

lemma sublist_witness: "ys = ps @ xs @ ss \<Longrightarrow> sublist xs ys"
  by (auto simp: sublist_def)

subsection \<open>Stubs and examples\<close>

lemma stub_call_raises_handled:
  "raises_only_handled (\<lambda>x. stub_call r) \<longleftrightarrow> (case r of Inl e \<Rightarrow> handled e | Inr y \<Rightarrow> True)"
  by (simp add: raises_only_handled_def stub_call_def split: sum.splits)

lemma stub_workflow_raises_handled:
  "raises_only_handled (classifier_llm (stub_workflow a b c)) \<longleftrightarrow>
     (case a of Inl e \<Rightarrow> handled e | Inr y \<Rightarrow> True)"
  "raises_only_handled (retriever (rag_chain (stub_workflow a b c))) \<longleftrightarrow>
     (case b of Inl e \<Rightarrow> handled e | Inr y \<Rightarrow> True)"
  "raises_only_handled (llm (rag_chain (stub_workflow a b c))) \<longleftrightarrow>
     (case c of Inl e \<Rightarrow> handled e | Inr y \<Rightarrow> True)"
  by (simp_all add: stub_workflow_def stub_call_raises_handled)

lemma stub_workflow_deterministic:
  "deterministic (classifier_llm (stub_workflow a b c))"
  "deterministic (retriever (rag_chain (stub_workflow a b c)))"
  "deterministic (llm (rag_chain (stub_workflow a b c)))"
  by (simp_all add: deterministic_def stub_workflow_def stub_call_def)

lemma strip_lit_products: "strip (lit ''products'') = lit ''products''"
  by (simp add: strip_def isspace_def lit_def)

lemma lower_lit_products: "lower u (lit ''products'') = lit ''products''"
  by (simp add: lower_def ascii_lower_def lit_def)

lemma strip_example: "strip (lit ''  Products\<newline>'') = lit ''Products''"
  by (simp add: strip_def isspace_def lit_def)

lemma lower_example: "lower u (lit ''Products'') = lit ''products''"
  by (simp add: lower_def ascii_lower_def lit_def)

lemma strip_example2: "strip (lit ''refunds '') = lit ''refunds''"
  by (simp add: strip_def isspace_def lit_def)

lemma lower_example2: "lower u (lit ''refunds'') = lit ''refunds''"
  by (simp add: lower_def ascii_lower_def lit_def)

subsection \<open>Determinism\<close>

lemma invoke_no_raise:
  assumes "encodable q"
    and "raises_only_handled (classifier_llm self)"
    and "raises_only_handled (retriever (rag_chain self))"
    and "raises_only_handled (llm (rag_chain self))"
  shows "\<exists>s w'. invoke self q w = (Inr s, w')"
proof -
  let ?init = "\<lparr>query = q, category = [], answer = [], metadata = []\<rparr>"
  have "\<forall>e w1. classifier_llm self (classification_prompt (query ?init)) w = (Inl e, w1) \<longrightarrow> handled e"
    using raises_only_handledD [OF assms(2), of "classification_prompt q" w] by simp
  from classifier_node_returns [OF this]
  obtain s1 w1 where c: "classifier_node self ?init w = (Inr s1, w1)"
    by blast
  have "\<forall>e w2. get_context_and_answer (rag_chain self) (query s1) w1 = (Inl e, w2) \<longrightarrow> handled e"
    using gca_raises_handled [OF assms(3,4)] by blast
  from rag_responder_node_returns [OF this]
  obtain s w' where "rag_responder_node self s1 w1 = (Inr s, w')"
    by blast
  with c assms(1) show ?thesis
    by (simp add: invoke_unfold)
qed

lemma classifier_node_deterministic:
  assumes "deterministic (classifier_llm self)"
  shows "fst (classifier_node self state w) = fst (classifier_node self state w')"
proof -
  let ?p = "classification_prompt (query state)"
  obtain r w1 where a: "classifier_llm self ?p w = (r, w1)" by (cases "classifier_llm self ?p w")
  obtain r' w1' where b: "classifier_llm self ?p w' = (r', w1')" by (cases "classifier_llm self ?p w'")
  from deterministicD [OF assms, of ?p w w'] a b have "r' = r" by simp
  with a b show ?thesis
    by (simp add: classifier_node_def classifier_try_def Let_def split: sum.splits exn.splits)
qed

lemma rag_chain_invoke_deterministic:
  assumes "deterministic (retriever c)" and "deterministic (llm c)"
  shows "fst (rag_chain_invoke c q w) = fst (rag_chain_invoke c q w')"
proof -
  obtain r w1 where a: "retriever c q w = (r, w1)" by (cases "retriever c q w")
  obtain r' w1' where b: "retriever c q w' = (r', w1')" by (cases "retriever c q w'")
  from deterministicD [OF assms(1), of q w w'] a b have "r' = r" by simp
  with a b deterministicD [OF assms(2)] show ?thesis
    by (simp add: rag_chain_invoke_def split: sum.splits)
qed

lemma gca_deterministic:
  assumes "deterministic (retriever c)" and "deterministic (llm c)"
  shows "fst (get_context_and_answer c q w) = fst (get_context_and_answer c q w')"
proof -
  obtain r w1 where a: "retriever c q w = (r, w1)" by (cases "retriever c q w")
  obtain r' w1' where b: "retriever c q w' = (r', w1')" by (cases "retriever c q w'")
  from deterministicD [OF assms(1), of q w w'] a b have r: "r' = r" by simp
  obtain x w2 where c: "rag_chain_invoke c q w1 = (x, w2)" by (cases "rag_chain_invoke c q w1")
  obtain x' w2' where d: "rag_chain_invoke c q w1' = (x', w2')" by (cases "rag_chain_invoke c q w1'")
  from rag_chain_invoke_deterministic [OF assms, of q w1 w1'] c d have "x' = x" by simp
  with a b c d r show ?thesis
    by (simp add: get_context_and_answer_def Let_def split: sum.splits)
qed

lemma rag_responder_node_deterministic:
  assumes "deterministic (retriever (rag_chain self))" and "deterministic (llm (rag_chain self))"
  shows "fst (rag_responder_node self state w) = fst (rag_responder_node self state w')"
proof -
  let ?g = "get_context_and_answer (rag_chain self) (query state)"
  obtain r w1 where a: "?g w = (r, w1)" by (cases "?g w")
  obtain r' w1' where b: "?g w' = (r', w1')" by (cases "?g w'")
  from gca_deterministic [OF assms, of "query state" w w'] a b have "r' = r" by simp
  with a b show ?thesis
    by (simp add: rag_responder_node_def split: sum.splits exn.splits)
qed

lemma invoke_deterministic_fst:
  assumes "deterministic (classifier_llm self)"
    and "deterministic (retriever (rag_chain self))" and "deterministic (llm (rag_chain self))"
  shows "fst (invoke self q w) = fst (invoke self q w')"
proof (cases "encodable q")
  case False
  then show ?thesis by (simp add: invoke_unprintable)
next
  case True
  let ?init = "\<lparr>query = q, category = [], answer = [], metadata = []\<rparr>"
  obtain r w1 where a: "classifier_node self ?init w = (r, w1)"
    by (cases "classifier_node self ?init w")
  obtain r' w1' where b: "classifier_node self ?init w' = (r', w1')"
    by (cases "classifier_node self ?init w'")
  from classifier_node_deterministic [OF assms(1), of ?init w w'] a b have r: "r' = r" by simp
  show ?thesis
  proof (cases r)
    case (Inl e)
    with a b r True show ?thesis by (simp add: invoke_unfold)
  next
    case (Inr s1)
    with a b r True rag_responder_node_deterministic [OF assms(2,3), of s1 w1 w1'] show ?thesis
      by (simp add: invoke_unfold)
  qed
qed

section \<open>The claims\<close>

subsection \<open>C1: what \<open>invoke\<close> returns\<close>

text \<open>
  C1, as amended. Let the query be printable, and let the classifier, the retriever and
  the generation model raise only exceptions that \<open>except Exception\<close> catches and whose
  text is printable. Then, for every state of the world and whatever the collaborators
  return, \<open>invoke\<close> returns a turn result and does not raise: neither a node nor the
  step limit of the graph ends the run with an exception. The result carries the query,
  and its category is one of the four values. Its answer is
  \<^item> for the categories \<open>products\<close> and \<open>returns\<close>: the answer of this run's
    \<open>get_context_and_answer\<close>, which is the output of this run's generation, when
    retrieval and generation succeed (so an empty generation gives an empty answer), and
    the non-empty fallback text when one of them raises;
  \<^item> for every other category: the escalation message of the category, which is not
    empty.
\<close>

theorem invoke_returns_turn_result:
  assumes "encodable q"
    and "raises_only_handled (classifier_llm self)"
    and "raises_only_handled (retriever (rag_chain self))"
    and "raises_only_handled (llm (rag_chain self))"
  shows "\<exists>s w' w1.
           invoke self q w = (Inr s, w') \<and> query s = q \<and> category s \<in> set valid_categories \<and>
           w1 = snd (classifier_llm self (classification_prompt q) w) \<and>
           (if category s = lit ''products'' \<or> category s = lit ''returns''
            then (case fst (get_context_and_answer (rag_chain self) q w1) of
                    Inr result \<Rightarrow> answer s = rr_answer result
                  | Inl e \<Rightarrow> answer s = fallback_answer \<and> answer s \<noteq> []) \<and>
                 (\<forall>docs w2 docs2 w3 a w4.
                    retriever (rag_chain self) q w1 = (Inr docs, w2) \<and>
                    retriever (rag_chain self) q w2 = (Inr docs2, w3) \<and>
                    llm (rag_chain self) (prompt_template (format_docs docs2) q) w3 = (Inr a, w4) \<longrightarrow>
                    answer s = a)
            else answer s = (if category s = lit ''general'' then escalation_message_general
                             else escalation_message_other) \<and>
                 answer s \<noteq> [])"
proof -
  let ?init = "\<lparr>query = q, category = [], answer = [], metadata = []\<rparr>"
  let ?w1 = "snd (classifier_llm self (classification_prompt q) w)"
  have "\<forall>e w1. classifier_llm self (classification_prompt (query ?init)) w = (Inl e, w1) \<longrightarrow> handled e"
    using raises_only_handledD [OF assms(2), of "classification_prompt q" w] by simp
  from classifier_node_returns [OF this]
  obtain s1 w1 where c: "classifier_node self ?init w = (Inr s1, w1)"
    by blast
  from classifier_node_Inr [OF c]
  have s1: "query s1 = q" "category s1 \<in> set valid_categories" and w1: "w1 = ?w1"
    by simp_all
  show ?thesis
  proof (cases "category s1 = lit ''products'' \<or> category s1 = lit ''returns''")
    case True
    have "\<forall>e w2. get_context_and_answer (rag_chain self) (query s1) w1 = (Inl e, w2) \<longrightarrow> handled e"
      using gca_raises_handled [OF assms(3,4)] by blast
    from rag_responder_node_returns [OF this]
    obtain s w' where r: "rag_responder_node self s1 w1 = (Inr s, w')"
      by blast
    from rag_responder_node_Inr [OF r] s1
    have s: "query s = q" "category s = category s1"
      and a: "case fst (get_context_and_answer (rag_chain self) q w1) of
                Inr result \<Rightarrow> answer s = rr_answer result
              | Inl e \<Rightarrow> answer s = fallback_answer"
      by simp_all
    have link: "answer s = a"
      if "retriever (rag_chain self) q w1 = (Inr docs, w2) \<and>
          retriever (rag_chain self) q w2 = (Inr docs2, w3) \<and>
          llm (rag_chain self) (prompt_template (format_docs docs2) q) w3 = (Inr a, w4)"
      for docs w2 docs2 w3 a w4
      using a gca_success [of "rag_chain self" q w1 docs w2 docs2 w3 a w4] that by simp
    from c True r assms(1) have "invoke self q w = (Inr s, w')"
      by (simp add: invoke_unfold)
    with s s1 True a link w1 show ?thesis
      by (auto simp: fallback_answer_nonempty split: sum.splits)
  next
    case False
    with c assms(1) have "invoke self q w = (Inr (escalation_node s1), w1)"
      by (simp add: invoke_unfold)
    with False s1 show ?thesis
      by (simp add: escalation_node_fields escalation_messages_nonempty)
  qed
qed

text \<open>
  The theorem at two stubs whose classifier says \<open>products\<close> and whose generation
  model answers \<open>ok\<close>. At the first the retriever raises a printable exception: the run
  returns a non-empty answer. At the second the retriever finds a chunk: the answer is
  \<open>ok\<close>, the output of the generation.
\<close>

theorem invoke_returns_turn_result_witness:
  "(\<exists>s w'. invoke (stub_workflow (Inr (AIMessage (Text (lit ''products''))))
                     (Inl (Exception (lit ''index unavailable''))) (Inr (lit ''ok'')))
                  (lit ''hi'') 0 = (Inr s, w') \<and>
           query s = lit ''hi'' \<and> category s \<in> set valid_categories \<and> answer s \<noteq> []) \<and>
   (\<exists>s w'. invoke (stub_workflow (Inr (AIMessage (Text (lit ''products''))))
                     (Inr [chunk 0]) (Inr (lit ''ok'')))
                  (lit ''hi'') 0 = (Inr s, w') \<and>
           query s = lit ''hi'' \<and> category s = lit ''products'' \<and> answer s = lit ''ok'')"
proof -
  let ?down = "stub_workflow (Inr (AIMessage (Text (lit ''products''))))
                 (Inl (Exception (lit ''index unavailable''))) (Inr (lit ''ok''))"
  have "get_context_and_answer (rag_chain ?down) (lit ''hi'') w =
          (Inl (Exception (lit ''index unavailable'')), Suc w)" for w
    by (simp add: get_context_and_answer_def stub_workflow_def stub_call_def)
  with invoke_returns_turn_result [of "lit ''hi''" ?down 0]
  have a: "\<exists>s w'. invoke ?down (lit ''hi'') 0 = (Inr s, w') \<and>
           query s = lit ''hi'' \<and> category s \<in> set valid_categories \<and> answer s \<noteq> []"
    by (auto simp: encodable_lit stub_workflow_raises_handled split: if_splits)
  let ?ok = "stub_workflow (Inr (AIMessage (Text (lit ''products'')))) (Inr [chunk 0]) (Inr (lit ''ok''))"
  let ?init = "\<lparr>query = lit ''hi'', category = [], answer = [], metadata = []\<rparr>"
  have "encodable (lit ''hi'')" "raises_only_handled (classifier_llm ?ok)"
    "raises_only_handled (retriever (rag_chain ?ok))" "raises_only_handled (llm (rag_chain ?ok))"
    by (simp_all add: encodable_lit stub_workflow_raises_handled)
  from invoke_returns_turn_result [OF this, of 0]
  obtain s w' w1 where i: "invoke ?ok (lit ''hi'') 0 = (Inr s, w')" and q: "query s = lit ''hi''"
    and w1: "w1 = snd (classifier_llm ?ok (classification_prompt (lit ''hi'')) 0)"
    and r: "if category s = lit ''products'' \<or> category s = lit ''returns''
            then (case fst (get_context_and_answer (rag_chain ?ok) (lit ''hi'') w1) of
                    Inr result \<Rightarrow> answer s = rr_answer result
                  | Inl e \<Rightarrow> answer s = fallback_answer \<and> answer s \<noteq> []) \<and>
                 (\<forall>docs w2 docs2 w3 a w4.
                    retriever (rag_chain ?ok) (lit ''hi'') w1 = (Inr docs, w2) \<and>
                    retriever (rag_chain ?ok) (lit ''hi'') w2 = (Inr docs2, w3) \<and>
                    llm (rag_chain ?ok) (prompt_template (format_docs docs2) (lit ''hi'')) w3
                      = (Inr a, w4) \<longrightarrow>
                    answer s = a)
            else answer s = (if category s = lit ''general'' then escalation_message_general
                             else escalation_message_other) \<and>
                 answer s \<noteq> []"
    by (elim exE conjE)
  have "classifier_llm ?ok (classification_prompt (query ?init)) 0
          = (Inr (AIMessage (Text (lit ''products''))), 1)"
    by (simp add: stub_workflow_def stub_call_def)
  from classifier_node_text [OF this]
  have c: "classifier_node ?ok ?init 0 =
             (Inr (?init\<lparr>category := lit ''products'',
                          metadata := [(lit ''classifier'', PStr (lit ''success''))]\<rparr>), 1)"
    by (simp add: strip_lit_products lower_lit_products valid_categories_def)
  obtain s2 w2 where n: "rag_responder_node ?ok
      (?init\<lparr>category := lit ''products'',
              metadata := [(lit ''classifier'', PStr (lit ''success''))]\<rparr>) 1 = (Inr s2, w2)"
    using i c by (simp add: invoke_unfold encodable_lit)
  from rag_responder_node_Inr [OF n] i c n have cat: "category s = lit ''products''"
    by (simp add: invoke_unfold encodable_lit)
  from cat have respond: "category s = lit ''products'' \<or> category s = lit ''returns''"
    by simp
  note link = r [unfolded if_P [OF respond], THEN conjunct2, rule_format,
      of "[chunk 0]" "Suc w1" "[chunk 0]" "Suc (Suc w1)" "lit ''ok''" "Suc (Suc (Suc w1))"]
  have "answer s = lit ''ok''"
    by (rule link) (simp add: stub_workflow_def stub_call_def)
  with i q cat have b: "\<exists>s w'. invoke ?ok (lit ''hi'') 0 = (Inr s, w') \<and>
           query s = lit ''hi'' \<and> category s = lit ''products'' \<and> answer s = lit ''ok''"
    by blast
  from a b show ?thesis by (intro conjI)
qed

text \<open>
  C1 as stated fails in three ways. With a generation model that returns the empty
  string, the answer of the turn result is the empty string. A query with a lone
  surrogate cannot be printed, and \<open>invoke\<close> raises before the graph starts. An exception
  of the classifier outside \<open>Exception\<close> passes the handler and leaves \<open>invoke\<close>.
\<close>

theorem invoke_counterexample:
  "invoke (stub_workflow (Inr (AIMessage (Text (lit ''products'')))) (Inr []) (Inr []))
          (lit ''What is the price of SmartWatch Pro X?'') 0 =
     (Inr \<lparr>query = lit ''What is the price of SmartWatch Pro X?'',
           category = lit ''products'',
           answer = [],
           metadata = [(lit ''classifier'', PStr (lit ''success'')),
                       (lit ''rag'', PDict [(lit ''sources'', PList []),
                                            (lit ''context_used'', PBool True)])]\<rparr>, 4) \<and>
   invoke (stub_workflow (Inr (AIMessage (Text (lit ''products'')))) (Inr []) (Inr (lit ''ok'')))
          (lit ''price'' @ [0xD800]) 0 =
     (Inl (Exception ([39] @ lit ''utf-8'' @ [39] @ lit '' codec can't encode character '' @
                      [39, 92] @ lit ''ud800'' @ [39] @
                      lit '' in position 26: surrogates not allowed'')), 0) \<and>
   invoke (stub_workflow (Inl (BaseException (lit ''shutting down''))) (Inr []) (Inr (lit ''ok'')))
          (lit ''price'') 0 =
     (Inl (BaseException (lit ''shutting down'')), 1)"
proof -
  let ?self = "stub_workflow (Inr (AIMessage (Text (lit ''products'')))) (Inr []) (Inr [])"
  let ?q = "lit ''What is the price of SmartWatch Pro X?''"
  let ?init = "\<lparr>query = ?q, category = [], answer = [], metadata = []\<rparr>"
  let ?s1 = "?init\<lparr>category := lit ''products'',
                    metadata := [(lit ''classifier'', PStr (lit ''success''))]\<rparr>"
  have "classifier_llm ?self (classification_prompt (query ?init)) 0
          = (Inr (AIMessage (Text (lit ''products''))), 1)"
    by (simp add: stub_workflow_def stub_call_def)
  from classifier_node_text [OF this]
  have c: "classifier_node ?self ?init 0 = (Inr ?s1, 1)"
    by (simp add: strip_lit_products lower_lit_products valid_categories_def)
  have g: "get_context_and_answer (rag_chain ?self) (query ?s1) 1 =
          (Inr \<lparr>rr_query = ?q, rr_context = format_docs [], rr_answer = [],
                rr_sources = map doc_metadata []\<rparr>, 4)"
    using gca_success [of "rag_chain ?self" ?q 1 "[]" 2 "[]" 3 "[]" 4]
    by (simp add: stub_workflow_def stub_call_def)
  have r: "rag_responder_node ?self ?s1 1 =
             (Inr (?s1\<lparr>answer := [],
                        metadata := [(lit ''classifier'', PStr (lit ''success'')),
                                     (lit ''rag'', PDict [(lit ''sources'', PList []),
                                            (lit ''context_used'', PBool True)])]\<rparr>), 4)"
    using g by (simp add: rag_responder_node_def setitem_def lit_eq_iff)
  from c r have empty: "invoke ?self ?q 0 =
     (Inr \<lparr>query = ?q, category = lit ''products'', answer = [],
           metadata = [(lit ''classifier'', PStr (lit ''success'')),
                       (lit ''rag'', PDict [(lit ''sources'', PList []),
                                            (lit ''context_used'', PBool True)])]\<rparr>, 4)"
    by (simp add: invoke_unfold encodable_lit)
  have "\<not> encodable (lit ''price'' @ [0xD800])"
    by (simp add: encodable_append encodable_Cons surrogate_def)
  from invoke_unprintable [OF this]
  have surrogate: "invoke (stub_workflow (Inr (AIMessage (Text (lit ''products'')))) (Inr [])
                     (Inr (lit ''ok''))) (lit ''price'' @ [0xD800]) 0 =
     (Inl (Exception ([39] @ lit ''utf-8'' @ [39] @ lit '' codec can't encode character '' @
                      [39, 92] @ lit ''ud800'' @ [39] @
                      lit '' in position 26: surrogates not allowed'')), 0)"
    by (simp add: codec_error_def surrogate_def lit_def hex4_def hex_digit_def Let_def)
  let ?down = "stub_workflow (Inl (BaseException (lit ''shutting down''))) (Inr []) (Inr (lit ''ok''))"
  have "classifier_llm ?down (classification_prompt
          (query \<lparr>query = lit ''price'', category = [], answer = [], metadata = []\<rparr>)) 0
          = (Inl (BaseException (lit ''shutting down'')), 1)"
    by (simp add: stub_workflow_def stub_call_def)
  from classifier_node_uncaught [OF this]
  have base: "invoke ?down (lit ''price'') 0 = (Inl (BaseException (lit ''shutting down'')), 1)"
    by (simp add: invoke_unfold encodable_lit)
  from empty surrogate base show ?thesis
    by (intro conjI)
qed

subsection \<open>C2: routing\<close>

text \<open>
  C2. \<open>route_query\<close> is a function from the graph state to the name of the next node:
  it has no access to the collaborators or the world and returns no state, so it cannot
  change any. Its result depends on the category alone: \<open>rag_responder\<close> exactly when
  the category is \<open>products\<close> or \<open>returns\<close>, and \<open>escalation\<close> for \<open>general\<close>,
  \<open>unknown\<close> and every other value.
\<close>

theorem route_query_by_category:
  "route_query state =
     (if category state = lit ''products'' \<or> category state = lit ''returns''
      then rag_responder else escalation) \<and>
   (\<forall>state'. category state' = category state \<longrightarrow> route_query state' = route_query state)"
  by (simp add: route_query_def)

text \<open>
  The six kinds of category (the four values, a value in another case, the empty string),
  and two states that agree on the category only.
\<close>

theorem route_query_by_category_witness:
  "route_query \<lparr>query = lit ''a'', category = lit ''products'', answer = [], metadata = []\<rparr> = rag_responder \<and>
   route_query \<lparr>query = lit ''b'', category = lit ''returns'', answer = lit ''x'', metadata = []\<rparr> = rag_responder \<and>
   route_query \<lparr>query = lit ''c'', category = lit ''general'', answer = [], metadata = []\<rparr> = escalation \<and>
   route_query \<lparr>query = lit ''d'', category = lit ''unknown'', answer = [], metadata = []\<rparr> = escalation \<and>
   route_query \<lparr>query = lit ''e'', category = lit ''Products'', answer = [], metadata = []\<rparr> = escalation \<and>
   route_query \<lparr>query = lit ''f'', category = [], answer = [], metadata = []\<rparr> = escalation \<and>
   route_query \<lparr>query = lit ''other'', category = lit ''products'', answer = lit ''y'',
                metadata = [(lit ''classifier'', PStr (lit ''success''))]\<rparr> =
     route_query \<lparr>query = lit ''a'', category = lit ''products'', answer = [], metadata = []\<rparr>"
  using route_query_by_category [of "\<lparr>query = lit ''a'', category = lit ''products'', answer = [], metadata = []\<rparr>"]
    route_query_by_category [of "\<lparr>query = lit ''b'', category = lit ''returns'', answer = lit ''x'', metadata = []\<rparr>"]
    route_query_by_category [of "\<lparr>query = lit ''c'', category = lit ''general'', answer = [], metadata = []\<rparr>"]
    route_query_by_category [of "\<lparr>query = lit ''d'', category = lit ''unknown'', answer = [], metadata = []\<rparr>"]
    route_query_by_category [of "\<lparr>query = lit ''e'', category = lit ''Products'', answer = [], metadata = []\<rparr>"]
    route_query_by_category [of "\<lparr>query = lit ''f'', category = [], answer = [], metadata = []\<rparr>"]
  by (simp add: lit_eq_iff lit_eq_Nil_iff eq_commute [of "[]"])

subsection \<open>C3: classification\<close>

text \<open>
  C3, as amended. Whenever \<open>classifier_node\<close> returns, the category of the state it
  returns is one of \<open>products\<close>, \<open>returns\<close>, \<open>general\<close>, \<open>unknown\<close>. It returns,
  and raises nothing, whenever the classifier call returns, and whenever that call raises
  an exception that \<open>except Exception\<close> catches and whose text is printable. When the
  model returns text, the text is stripped of surrounding whitespace and lowercased; the
  category is that normalized text when it is one of the four values and \<open>unknown\<close>
  otherwise. When the model returns content that is not text, or the call raises such an
  exception, the category is \<open>unknown\<close>.
\<close>

theorem classifier_node_normalizes:
  "((\<forall>e w1. classifier_llm self (classification_prompt (query state)) w = (Inl e, w1) \<longrightarrow>
        handled e) \<longrightarrow>
      (\<exists>s w'. classifier_node self state w = (Inr s, w') \<and>
          category s \<in> set valid_categories \<and>
          (\<forall>raw w1. classifier_llm self (classification_prompt (query state)) w
                       = (Inr (AIMessage (Text raw)), w1) \<longrightarrow>
             category s =
               (let normalized = lower (unicode_lower self) (strip raw)
                in if normalized \<in> set valid_categories then normalized else lit ''unknown'')) \<and>
          (\<forall>bs w1. classifier_llm self (classification_prompt (query state)) w
                      = (Inr (AIMessage (Blocks bs)), w1) \<longrightarrow>
             category s = lit ''unknown'') \<and>
          (\<forall>e w1. classifier_llm self (classification_prompt (query state)) w = (Inl e, w1) \<longrightarrow>
             category s = lit ''unknown''))) \<and>
   (\<forall>s w'. classifier_node self state w = (Inr s, w') \<longrightarrow> category s \<in> set valid_categories)"
proof (intro conjI impI allI)
  fix s w'
  assume "classifier_node self state w = (Inr s, w')"
  from classifier_node_Inr [OF this] show "category s \<in> set valid_categories"
    by simp
next
  assume h: "\<forall>e w1. classifier_llm self (classification_prompt (query state)) w = (Inl e, w1) \<longrightarrow>
        handled e"
  show "\<exists>s w'. classifier_node self state w = (Inr s, w') \<and>
          category s \<in> set valid_categories \<and>
          (\<forall>raw w1. classifier_llm self (classification_prompt (query state)) w
                       = (Inr (AIMessage (Text raw)), w1) \<longrightarrow>
             category s =
               (let normalized = lower (unicode_lower self) (strip raw)
                in if normalized \<in> set valid_categories then normalized else lit ''unknown'')) \<and>
          (\<forall>bs w1. classifier_llm self (classification_prompt (query state)) w
                      = (Inr (AIMessage (Blocks bs)), w1) \<longrightarrow>
             category s = lit ''unknown'') \<and>
          (\<forall>e w1. classifier_llm self (classification_prompt (query state)) w = (Inl e, w1) \<longrightarrow>
             category s = lit ''unknown'')"
  proof (cases self state w rule: classifier_node_cases)
    case (Str raw w1)
    from classifier_node_text [OF this] Str show ?thesis
      by (simp add: unknown_valid)
  next
    case (Blk bs w1)
    from classifier_node_blocks [OF this] Blk show ?thesis
      by (simp add: unknown_valid)
  next
    case (Handled msg w1)
    from classifier_node_raises [OF this] Handled show ?thesis
      by (simp add: unknown_valid)
  next
    case (Unprintable msg w1)
    with h show ?thesis by auto
  next
    case (Uncaught msg w1)
    with h show ?thesis by auto
  qed
qed

text \<open>
  A model answering \<open>"  Products\\n"\<close> (category \<open>products\<close>), one answering
  \<open>"refunds "\<close>, one answering with a list of blocks and one that raises a printable
  exception (category \<open>unknown\<close> for the three).
\<close>

theorem classifier_node_normalizes_witness:
  "(\<exists>s w'. classifier_node
             (stub_workflow (Inr (AIMessage (Text (lit ''  Products\<newline>'')))) (Inr []) (Inr []))
             \<lparr>query = lit ''price?'', category = [], answer = [], metadata = []\<rparr> 0 = (Inr s, w') \<and>
           category s = lit ''products'') \<and>
   (\<exists>s w'. classifier_node
             (stub_workflow (Inr (AIMessage (Text (lit ''refunds '')))) (Inr []) (Inr []))
             \<lparr>query = lit ''price?'', category = [], answer = [], metadata = []\<rparr> 0 = (Inr s, w') \<and>
           category s = lit ''unknown'') \<and>
   (\<exists>s w'. classifier_node
             (stub_workflow (Inr (AIMessage (Blocks [PStr (lit ''products'')]))) (Inr []) (Inr []))
             \<lparr>query = lit ''price?'', category = [], answer = [], metadata = []\<rparr> 0 = (Inr s, w') \<and>
           category s = lit ''unknown'') \<and>
   (\<exists>s w'. classifier_node
             (stub_workflow (Inl (Exception (lit ''quota exceeded''))) (Inr []) (Inr []))
             \<lparr>query = lit ''price?'', category = [], answer = [], metadata = []\<rparr> 0 = (Inr s, w') \<and>
           category s = lit ''unknown'')"
proof -
  let ?init = "\<lparr>query = lit ''price?'', category = [], answer = [], metadata = []\<rparr>"
  have a: "\<exists>s w'. classifier_node
             (stub_workflow (Inr (AIMessage (Text (lit ''  Products\<newline>'')))) (Inr []) (Inr []))
             ?init 0 = (Inr s, w') \<and> category s = lit ''products''"
    using classifier_node_normalizes
      [of "stub_workflow (Inr (AIMessage (Text (lit ''  Products\<newline>'')))) (Inr []) (Inr [])" ?init 0,
       THEN conjunct1]
    by (auto simp: stub_workflow_def stub_call_def strip_example lower_example valid_categories_def)
  have b: "\<exists>s w'. classifier_node
             (stub_workflow (Inr (AIMessage (Text (lit ''refunds '')))) (Inr []) (Inr []))
             ?init 0 = (Inr s, w') \<and> category s = lit ''unknown''"
    using classifier_node_normalizes
      [of "stub_workflow (Inr (AIMessage (Text (lit ''refunds '')))) (Inr []) (Inr [])" ?init 0,
       THEN conjunct1]
    by (auto simp: stub_workflow_def stub_call_def strip_example2 lower_example2 valid_categories_def lit_eq_iff)
  have c: "\<exists>s w'. classifier_node
             (stub_workflow (Inr (AIMessage (Blocks [PStr (lit ''products'')]))) (Inr []) (Inr []))
             ?init 0 = (Inr s, w') \<and> category s = lit ''unknown''"
    using classifier_node_normalizes
      [of "stub_workflow (Inr (AIMessage (Blocks [PStr (lit ''products'')]))) (Inr []) (Inr [])" ?init 0,
       THEN conjunct1]
    by (auto simp: stub_workflow_def stub_call_def)
  have d: "\<exists>s w'. classifier_node
             (stub_workflow (Inl (Exception (lit ''quota exceeded''))) (Inr []) (Inr []))
             ?init 0 = (Inr s, w') \<and> category s = lit ''unknown''"
    using classifier_node_normalizes
      [of "stub_workflow (Inl (Exception (lit ''quota exceeded''))) (Inr []) (Inr [])" ?init 0,
       THEN conjunct1]
    by (auto simp: stub_workflow_def stub_call_def encodable_lit)
  from a b c d show ?thesis by (intro conjI)
qed

text \<open>
  C3 as stated fails: an exception of the classifier call outside \<open>Exception\<close> leaves
  the node, and so does the failure of the handler's \<open>print\<close> when the text of the
  exception holds a lone surrogate.
\<close>

theorem classifier_node_propagates_counterexample:
  "classifier_node (stub_workflow (Inl (BaseException (lit ''shutting down''))) (Inr []) (Inr []))
     \<lparr>query = lit ''price?'', category = [], answer = [], metadata = []\<rparr> 0 =
     (Inl (BaseException (lit ''shutting down'')), 1) \<and>
   classifier_node (stub_workflow (Inl (Exception (lit ''bad reply '' @ [0xDC80]))) (Inr []) (Inr []))
     \<lparr>query = lit ''price?'', category = [], answer = [], metadata = []\<rparr> 0 =
     (Inl (Exception ([39] @ lit ''utf-8'' @ [39] @ lit '' codec can't encode character '' @
                      [39, 92] @ lit ''udc80'' @ [39] @
                      lit '' in position 34: surrogates not allowed'')), 1)"
proof -
  let ?init = "\<lparr>query = lit ''price?'', category = [], answer = [], metadata = []\<rparr>"
  have "classifier_llm (stub_workflow (Inl (BaseException (lit ''shutting down''))) (Inr []) (Inr []))
          (classification_prompt (query ?init)) 0 = (Inl (BaseException (lit ''shutting down'')), 1)"
    by (simp add: stub_workflow_def stub_call_def)
  note a = classifier_node_uncaught [OF this]
  have "classifier_llm (stub_workflow (Inl (Exception (lit ''bad reply '' @ [0xDC80]))) (Inr []) (Inr []))
          (classification_prompt (query ?init)) 0 = (Inl (Exception (lit ''bad reply '' @ [0xDC80])), 1)"
    by (simp add: stub_workflow_def stub_call_def)
  moreover have "\<not> encodable (lit ''bad reply '' @ [0xDC80])"
    by (simp add: encodable_append encodable_Cons surrogate_def)
  ultimately have "classifier_node
      (stub_workflow (Inl (Exception (lit ''bad reply '' @ [0xDC80]))) (Inr []) (Inr [])) ?init 0 =
      (Inl (Exception (codec_error (0x274C # lit '' Classification error: '' @
                                      lit ''bad reply '' @ [0xDC80]))), 1)"
    by (rule classifier_node_unprintable)
  then have b: "classifier_node
      (stub_workflow (Inl (Exception (lit ''bad reply '' @ [0xDC80]))) (Inr []) (Inr [])) ?init 0 =
     (Inl (Exception ([39] @ lit ''utf-8'' @ [39] @ lit '' codec can't encode character '' @
                      [39, 92] @ lit ''udc80'' @ [39] @
                      lit '' in position 34: surrogates not allowed'')), 1)"
    by (simp add: codec_error_def surrogate_def lit_def hex4_def hex_digit_def Let_def)
  from a b show ?thesis by (intro conjI)
qed

subsection \<open>C4: what a failed classification records\<close>

text \<open>
  C4, as amended. When the classifier call raises an exception that the handler catches
  and can print, with text \<open>msg\<close>, the node sets the category to \<open>unknown\<close> and
  replaces the metadata by the two entries \<open>classifier = "error"\<close> and
  \<open>error = msg\<close>: the \<open>classifier\<close> entry is a string, and the description of the
  exception is a separate top-level entry. The same happens when the content of the
  reply has no \<open>strip\<close> method. When the normalized output is outside the four values,
  the node sets the category to \<open>unknown\<close> and records \<open>classifier = "success"\<close>: no
  failure reason is stored.
\<close>

theorem classifier_node_failure_metadata:
  "(\<forall>msg w1. classifier_llm self (classification_prompt (query state)) w
                = (Inl (Exception msg), w1) \<and> encodable msg \<longrightarrow>
      classifier_node self state w =
        (Inr (state\<lparr>category := lit ''unknown'',
                    metadata := [(lit ''classifier'', PStr (lit ''error'')),
                                 (lit ''error'', PStr msg)]\<rparr>), w1)) \<and>
   (\<forall>bs w1. classifier_llm self (classification_prompt (query state)) w
               = (Inr (AIMessage (Blocks bs)), w1) \<longrightarrow>
      (\<exists>msg. classifier_node self state w =
        (Inr (state\<lparr>category := lit ''unknown'',
                    metadata := [(lit ''classifier'', PStr (lit ''error'')),
                                 (lit ''error'', PStr msg)]\<rparr>), w1))) \<and>
   (\<forall>raw w1. classifier_llm self (classification_prompt (query state)) w
                = (Inr (AIMessage (Text raw)), w1) \<and>
              lower (unicode_lower self) (strip raw) \<notin> set valid_categories \<longrightarrow>
      classifier_node self state w =
        (Inr (state\<lparr>category := lit ''unknown'',
                    metadata := [(lit ''classifier'', PStr (lit ''success''))]\<rparr>), w1))"
  by (auto simp: classifier_node_raises classifier_node_blocks classifier_node_text)

text \<open>
  A classifier call that raises, a reply that is a list of blocks, and a reply outside the
  four values.
\<close>

theorem classifier_node_failure_metadata_witness:
  "classifier_node (stub_workflow (Inl (Exception (lit ''quota exceeded''))) (Inr []) (Inr []))
     \<lparr>query = lit ''price?'', category = [], answer = [], metadata = []\<rparr> 0 =
     (Inr \<lparr>query = lit ''price?'', category = lit ''unknown'', answer = [],
           metadata = [(lit ''classifier'', PStr (lit ''error'')),
                       (lit ''error'', PStr (lit ''quota exceeded''))]\<rparr>, 1) \<and>
   (\<exists>msg. classifier_node
            (stub_workflow (Inr (AIMessage (Blocks [PStr (lit ''products'')]))) (Inr []) (Inr []))
            \<lparr>query = lit ''price?'', category = [], answer = [], metadata = []\<rparr> 0 =
     (Inr \<lparr>query = lit ''price?'', category = lit ''unknown'', answer = [],
           metadata = [(lit ''classifier'', PStr (lit ''error'')),
                       (lit ''error'', PStr msg)]\<rparr>, 1)) \<and>
   classifier_node (stub_workflow (Inr (AIMessage (Text (lit ''refunds '')))) (Inr []) (Inr []))
     \<lparr>query = lit ''price?'', category = [], answer = [], metadata = []\<rparr> 0 =
     (Inr \<lparr>query = lit ''price?'', category = lit ''unknown'', answer = [],
           metadata = [(lit ''classifier'', PStr (lit ''success''))]\<rparr>, 1)"
proof -
  let ?init = "\<lparr>query = lit ''price?'', category = [], answer = [], metadata = []\<rparr>"
  have a: "classifier_node (stub_workflow (Inl (Exception (lit ''quota exceeded''))) (Inr []) (Inr []))
     ?init 0 =
     (Inr \<lparr>query = lit ''price?'', category = lit ''unknown'', answer = [],
           metadata = [(lit ''classifier'', PStr (lit ''error'')),
                       (lit ''error'', PStr (lit ''quota exceeded''))]\<rparr>, 1)"
    using classifier_node_failure_metadata
      [of "stub_workflow (Inl (Exception (lit ''quota exceeded''))) (Inr []) (Inr [])" ?init 0]
    by (simp add: stub_workflow_def stub_call_def encodable_lit)
  have b: "\<exists>msg. classifier_node
            (stub_workflow (Inr (AIMessage (Blocks [PStr (lit ''products'')]))) (Inr []) (Inr []))
            ?init 0 =
     (Inr \<lparr>query = lit ''price?'', category = lit ''unknown'', answer = [],
           metadata = [(lit ''classifier'', PStr (lit ''error'')),
                       (lit ''error'', PStr msg)]\<rparr>, 1)"
    using classifier_node_failure_metadata
      [of "stub_workflow (Inr (AIMessage (Blocks [PStr (lit ''products'')]))) (Inr []) (Inr [])" ?init 0]
    by (simp add: stub_workflow_def stub_call_def)
  have c: "classifier_node (stub_workflow (Inr (AIMessage (Text (lit ''refunds '')))) (Inr []) (Inr []))
     ?init 0 =
     (Inr \<lparr>query = lit ''price?'', category = lit ''unknown'', answer = [],
           metadata = [(lit ''classifier'', PStr (lit ''success''))]\<rparr>, 1)"
    using classifier_node_failure_metadata
      [of "stub_workflow (Inr (AIMessage (Text (lit ''refunds '')))) (Inr []) (Inr [])" ?init 0]
    by (simp add: stub_workflow_def stub_call_def strip_example2 lower_example2
        valid_categories_def lit_eq_iff)
  from a b c show ?thesis by blast
qed

text \<open>
  C4 as stated fails twice. After a classifier call that raises, the \<open>classifier\<close>
  entry of the metadata is the string \<open>error\<close>, not a mapping with an error entry;
  after an output outside the enumeration the metadata is \<open>classifier = "success"\<close>
  and holds no failure reason.
\<close>

theorem classifier_metadata_counterexample:
  "classifier_node (stub_workflow (Inl (Exception (lit ''API key not valid''))) (Inr []) (Inr []))
     \<lparr>query = lit ''What's the weather today?'', category = [], answer = [], metadata = []\<rparr> 0 =
     (Inr \<lparr>query = lit ''What's the weather today?'', category = lit ''unknown'', answer = [],
           metadata = [(lit ''classifier'', PStr (lit ''error'')),
                       (lit ''error'', PStr (lit ''API key not valid''))]\<rparr>, 1) \<and>
   map_of [(lit ''classifier'', PStr (lit ''error'')),
           (lit ''error'', PStr (lit ''API key not valid''))] (lit ''classifier'') \<noteq>
     Some (PDict [(lit ''error'', PStr (lit ''API key not valid''))]) \<and>
   classifier_node (stub_workflow (Inr (AIMessage (Text (lit ''Shipping'')))) (Inr []) (Inr []))
     \<lparr>query = lit ''What's the weather today?'', category = [], answer = [], metadata = []\<rparr> 0 =
     (Inr \<lparr>query = lit ''What's the weather today?'', category = lit ''unknown'', answer = [],
           metadata = [(lit ''classifier'', PStr (lit ''success''))]\<rparr>, 1)"
proof -
  let ?init = "\<lparr>query = lit ''What's the weather today?'', category = [], answer = [],
                metadata = []\<rparr>"
  have "classifier_llm (stub_workflow (Inl (Exception (lit ''API key not valid''))) (Inr []) (Inr []))
          (classification_prompt (query ?init)) 0 = (Inl (Exception (lit ''API key not valid'')), 1)"
    by (simp add: stub_workflow_def stub_call_def)
  from classifier_node_raises [OF this encodable_lit]
  have a: "classifier_node
             (stub_workflow (Inl (Exception (lit ''API key not valid''))) (Inr []) (Inr [])) ?init 0 =
     (Inr \<lparr>query = lit ''What's the weather today?'', category = lit ''unknown'', answer = [],
           metadata = [(lit ''classifier'', PStr (lit ''error'')),
                       (lit ''error'', PStr (lit ''API key not valid''))]\<rparr>, 1)"
    by simp
  have normalized: "lower (\<lambda>s. s) (strip (lit ''Shipping'')) = lit ''shipping''"
    by (simp add: strip_def isspace_def lower_def ascii_lower_def lit_def)
  have "classifier_llm (stub_workflow (Inr (AIMessage (Text (lit ''Shipping'')))) (Inr []) (Inr []))
          (classification_prompt (query ?init)) 0 = (Inr (AIMessage (Text (lit ''Shipping''))), 1)"
    by (simp add: stub_workflow_def stub_call_def)
  from classifier_node_text [OF this]
  have b: "classifier_node
             (stub_workflow (Inr (AIMessage (Text (lit ''Shipping'')))) (Inr []) (Inr [])) ?init 0 =
     (Inr \<lparr>query = lit ''What's the weather today?'', category = lit ''unknown'', answer = [],
           metadata = [(lit ''classifier'', PStr (lit ''success''))]\<rparr>, 1)"
    by (simp add: stub_workflow_def normalized valid_categories_def lit_eq_iff)
  from a b show ?thesis
    by simp
qed

subsection \<open>C5: the Respond node\<close>

text \<open>
  C5, as amended. \<open>rag_responder_node\<close> on a state, in terms of the calls it makes
  (the retrieval of \<open>get_context_and_answer\<close>, the retrieval of the chain, the
  generation):
  \<^item> when the three succeed, the answer is the output of the generation model and the
    \<open>rag\<close> entry of the metadata is set to \<open>sources\<close> (the metadata of the chunks of
    the first retrieval) and \<open>context_used = True\<close>;
  \<^item> when one of them raises an exception that the handler catches and can print, with
    text \<open>msg\<close>, the answer is the fixed fallback text and the \<open>rag\<close> entry is set to
    \<open>error = msg\<close>;
  \<^item> reading the key just set gives the value set;
  \<^item> when no other exception is raised, the node returns a state and raises nothing;
  \<^item> the node is terminal: its edge leads to \<open>END\<close>, and a run of the graph that
    reaches it ends with what the node does.
\<close>

theorem rag_responder_node_outcomes:
  "(\<forall>docs w1 docs2 w2 a w3.
      retriever (rag_chain self) (query state) w = (Inr docs, w1) \<and>
      retriever (rag_chain self) (query state) w1 = (Inr docs2, w2) \<and>
      llm (rag_chain self) (prompt_template (format_docs docs2) (query state)) w2 = (Inr a, w3) \<longrightarrow>
      rag_responder_node self state w =
        (Inr (state\<lparr>answer := a,
                    metadata := setitem (metadata state) (lit ''rag'')
                      (PDict [(lit ''sources'', PList (map doc_metadata docs)),
                              (lit ''context_used'', PBool True)])\<rparr>), w3)) \<and>
   (\<forall>msg w1.
      retriever (rag_chain self) (query state) w = (Inl (Exception msg), w1) \<and> encodable msg \<longrightarrow>
      rag_responder_node self state w =
        (Inr (state\<lparr>answer := fallback_answer,
                    metadata := setitem (metadata state) (lit ''rag'')
                      (PDict [(lit ''error'', PStr msg)])\<rparr>), w1)) \<and>
   (\<forall>docs w1 msg w2.
      retriever (rag_chain self) (query state) w = (Inr docs, w1) \<and>
      retriever (rag_chain self) (query state) w1 = (Inl (Exception msg), w2) \<and> encodable msg \<longrightarrow>
      rag_responder_node self state w =
        (Inr (state\<lparr>answer := fallback_answer,
                    metadata := setitem (metadata state) (lit ''rag'')
                      (PDict [(lit ''error'', PStr msg)])\<rparr>), w2)) \<and>
   (\<forall>docs w1 docs2 w2 msg w3.
      retriever (rag_chain self) (query state) w = (Inr docs, w1) \<and>
      retriever (rag_chain self) (query state) w1 = (Inr docs2, w2) \<and>
      llm (rag_chain self) (prompt_template (format_docs docs2) (query state)) w2
        = (Inl (Exception msg), w3) \<and> encodable msg \<longrightarrow>
      rag_responder_node self state w =
        (Inr (state\<lparr>answer := fallback_answer,
                    metadata := setitem (metadata state) (lit ''rag'')
                      (PDict [(lit ''error'', PStr msg)])\<rparr>), w3)) \<and>
   (\<forall>d k v. map_of (setitem d k v) k = Some v) \<and>
   fallback_answer =
     lit ''I apologize, but I'm having trouble accessing the information right now. Please try again or contact support.'' \<and>
   ((\<forall>e w1. get_context_and_answer (rag_chain self) (query state) w = (Inl e, w1) \<longrightarrow> handled e) \<longrightarrow>
      (\<exists>s w'. rag_responder_node self state w = (Inr s, w'))) \<and>
   edges rag_responder state' = END \<and>
   run_graph (Suc k) self rag_responder state w = rag_responder_node self state w"
proof -
  have success: "rag_responder_node self state w =
        (Inr (state\<lparr>answer := a,
                    metadata := setitem (metadata state) (lit ''rag'')
                      (PDict [(lit ''sources'', PList (map doc_metadata docs)),
                              (lit ''context_used'', PBool True)])\<rparr>), w3)"
    if "retriever (rag_chain self) (query state) w = (Inr docs, w1)"
      and "retriever (rag_chain self) (query state) w1 = (Inr docs2, w2)"
      and "llm (rag_chain self) (prompt_template (format_docs docs2) (query state)) w2 = (Inr a, w3)"
    for docs w1 docs2 w2 a w3
    using rag_responder_node_success [OF gca_success [OF that]] by simp
  have fail1: "rag_responder_node self state w =
        (Inr (state\<lparr>answer := fallback_answer,
                    metadata := setitem (metadata state) (lit ''rag'')
                      (PDict [(lit ''error'', PStr msg)])\<rparr>), w1)"
    if "retriever (rag_chain self) (query state) w = (Inl (Exception msg), w1)" and "encodable msg"
    for msg w1
    using rag_responder_node_failure [OF gca_retrieval_raises [OF that(1)] that(2)] .
  have fail2: "rag_responder_node self state w =
        (Inr (state\<lparr>answer := fallback_answer,
                    metadata := setitem (metadata state) (lit ''rag'')
                      (PDict [(lit ''error'', PStr msg)])\<rparr>), w2)"
    if "retriever (rag_chain self) (query state) w = (Inr docs, w1)"
      and "retriever (rag_chain self) (query state) w1 = (Inl (Exception msg), w2)"
      and "encodable msg" for docs w1 msg w2
    using rag_responder_node_failure [OF gca_chain_retrieval_raises [OF that(1,2)] that(3)] .
  have fail3: "rag_responder_node self state w =
        (Inr (state\<lparr>answer := fallback_answer,
                    metadata := setitem (metadata state) (lit ''rag'')
                      (PDict [(lit ''error'', PStr msg)])\<rparr>), w3)"
    if "retriever (rag_chain self) (query state) w = (Inr docs, w1)"
      and "retriever (rag_chain self) (query state) w1 = (Inr docs2, w2)"
      and "llm (rag_chain self) (prompt_template (format_docs docs2) (query state)) w2
             = (Inl (Exception msg), w3)"
      and "encodable msg"
    for docs w1 docs2 w2 msg w3
    using rag_responder_node_failure [OF gca_generation_raises [OF that(1,2,3)] that(4)] .
  have fixed: "fallback_answer =
     lit ''I apologize, but I'm having trouble accessing the information right now. Please try again or contact support.''"
    by (simp add: fallback_answer_def lit_append [symmetric])
  from success fail1 fail2 fail3 fixed show ?thesis
    by (simp add: map_of_setitem rag_responder_node_returns run_graph_rag_responder
          del: run_graph.simps)
qed

text \<open>
  The four cases at stubs: everything succeeds; the retriever raises; the retriever
  answers once and raises on its second call; the generation model raises.
\<close>

theorem rag_responder_node_outcomes_witness:
  "rag_responder_node
     (stub_workflow (Inr (AIMessage (Text (lit ''products'')))) (Inr [chunk 0, chunk 1])
        (Inr (lit ''It costs 15,999.'')))
     \<lparr>query = lit ''price?'', category = lit ''products'', answer = [],
      metadata = [(lit ''classifier'', PStr (lit ''success''))]\<rparr> 1 =
     (Inr \<lparr>query = lit ''price?'', category = lit ''products'', answer = lit ''It costs 15,999.'',
           metadata = [(lit ''classifier'', PStr (lit ''success'')),
                       (lit ''rag'', PDict [(lit ''sources'',
                                             PList [doc_metadata (chunk 0), doc_metadata (chunk 1)]),
                                            (lit ''context_used'', PBool True)])]\<rparr>, 4) \<and>
   rag_responder_node
     (stub_workflow (Inr (AIMessage (Text (lit ''products''))))
        (Inl (Exception (lit ''index unavailable''))) (Inr (lit ''It costs 15,999.'')))
     \<lparr>query = lit ''price?'', category = lit ''products'', answer = [],
      metadata = [(lit ''classifier'', PStr (lit ''success''))]\<rparr> 1 =
     (Inr \<lparr>query = lit ''price?'', category = lit ''products'', answer = fallback_answer,
           metadata = [(lit ''classifier'', PStr (lit ''success'')),
                       (lit ''rag'', PDict [(lit ''error'', PStr (lit ''index unavailable''))])]\<rparr>, 2) \<and>
   rag_responder_node
     \<lparr>rag_chain = \<lparr>retriever = (\<lambda>q w. (if w = 1 then Inr [chunk 0]
                                         else Inl (Exception (lit ''timed out'')), Suc w)),
                   llm = echo_llm\<rparr>,
      classifier_llm = (\<lambda>p. stub_call (Inr (AIMessage (Text (lit ''products''))))),
      unicode_lower = (\<lambda>s. s)\<rparr>
     \<lparr>query = lit ''price?'', category = lit ''products'', answer = [],
      metadata = [(lit ''classifier'', PStr (lit ''success''))]\<rparr> 1 =
     (Inr \<lparr>query = lit ''price?'', category = lit ''products'', answer = fallback_answer,
           metadata = [(lit ''classifier'', PStr (lit ''success'')),
                       (lit ''rag'', PDict [(lit ''error'', PStr (lit ''timed out''))])]\<rparr>, 3) \<and>
   rag_responder_node
     (stub_workflow (Inr (AIMessage (Text (lit ''products'')))) (Inr [chunk 0, chunk 1])
        (Inl (Exception (lit ''quota exceeded''))))
     \<lparr>query = lit ''price?'', category = lit ''products'', answer = [],
      metadata = [(lit ''classifier'', PStr (lit ''success''))]\<rparr> 1 =
     (Inr \<lparr>query = lit ''price?'', category = lit ''products'', answer = fallback_answer,
           metadata = [(lit ''classifier'', PStr (lit ''success'')),
                       (lit ''rag'', PDict [(lit ''error'', PStr (lit ''quota exceeded''))])]\<rparr>, 4)"
proof -
  let ?state = "\<lparr>query = lit ''price?'', category = lit ''products'', answer = [],
      metadata = [(lit ''classifier'', PStr (lit ''success''))]\<rparr>"
  let ?ok = "stub_workflow (Inr (AIMessage (Text (lit ''products'')))) (Inr [chunk 0, chunk 1])
        (Inr (lit ''It costs 15,999.''))"
  let ?no_index = "stub_workflow (Inr (AIMessage (Text (lit ''products''))))
        (Inl (Exception (lit ''index unavailable''))) (Inr (lit ''It costs 15,999.''))"
  let ?once = "\<lparr>rag_chain = \<lparr>retriever = (\<lambda>q w. (if w = 1 then Inr [chunk 0]
                                         else Inl (Exception (lit ''timed out'')), Suc w)),
                   llm = echo_llm\<rparr>,
      classifier_llm = (\<lambda>p. stub_call (Inr (AIMessage (Text (lit ''products''))))),
      unicode_lower = (\<lambda>s. s)\<rparr>"
  let ?no_llm = "stub_workflow (Inr (AIMessage (Text (lit ''products'')))) (Inr [chunk 0, chunk 1])
        (Inl (Exception (lit ''quota exceeded'')))"
  have a: "rag_responder_node ?ok ?state 1 =
     (Inr \<lparr>query = lit ''price?'', category = lit ''products'', answer = lit ''It costs 15,999.'',
           metadata = [(lit ''classifier'', PStr (lit ''success'')),
                       (lit ''rag'', PDict [(lit ''sources'',
                                             PList [doc_metadata (chunk 0), doc_metadata (chunk 1)]),
                                            (lit ''context_used'', PBool True)])]\<rparr>, 4)"
    using rag_responder_node_outcomes [of ?ok ?state 1]
    by (simp add: stub_workflow_def stub_call_def setitem_def lit_eq_iff encodable_lit)
  have b: "rag_responder_node ?no_index ?state 1 =
     (Inr \<lparr>query = lit ''price?'', category = lit ''products'', answer = fallback_answer,
           metadata = [(lit ''classifier'', PStr (lit ''success'')),
                       (lit ''rag'', PDict [(lit ''error'', PStr (lit ''index unavailable''))])]\<rparr>, 2)"
    using rag_responder_node_outcomes [of ?no_index ?state 1]
    by (simp add: stub_workflow_def stub_call_def setitem_def lit_eq_iff encodable_lit)
  have c: "rag_responder_node ?once ?state 1 =
     (Inr \<lparr>query = lit ''price?'', category = lit ''products'', answer = fallback_answer,
           metadata = [(lit ''classifier'', PStr (lit ''success'')),
                       (lit ''rag'', PDict [(lit ''error'', PStr (lit ''timed out''))])]\<rparr>, 3)"
    using rag_responder_node_outcomes [of ?once ?state 1]
    by (simp add: setitem_def lit_eq_iff encodable_lit)
  have d: "rag_responder_node ?no_llm ?state 1 =
     (Inr \<lparr>query = lit ''price?'', category = lit ''products'', answer = fallback_answer,
           metadata = [(lit ''classifier'', PStr (lit ''success'')),
                       (lit ''rag'', PDict [(lit ''error'', PStr (lit ''quota exceeded''))])]\<rparr>, 4)"
    using rag_responder_node_outcomes [of ?no_llm ?state 1]
    by (simp add: stub_workflow_def stub_call_def setitem_def lit_eq_iff encodable_lit)
  from a b c d show ?thesis by blast
qed

text \<open>
  C5 as stated fails: an exception of the retriever outside \<open>Exception\<close> leaves the
  node, and so does the failure of the handler's \<open>print\<close> when the text of the exception
  of the generation model holds a lone surrogate.
\<close>

theorem rag_responder_node_propagates_counterexample:
  "rag_responder_node
     (stub_workflow (Inr (AIMessage (Text (lit ''products''))))
        (Inl (BaseException (lit ''shutting down''))) (Inr (lit ''ok'')))
     \<lparr>query = lit ''price?'', category = lit ''products'', answer = [],
      metadata = [(lit ''classifier'', PStr (lit ''success''))]\<rparr> 1 =
     (Inl (BaseException (lit ''shutting down'')), 2) \<and>
   rag_responder_node
     (stub_workflow (Inr (AIMessage (Text (lit ''products'')))) (Inr [chunk 0])
        (Inl (Exception (lit ''timeout '' @ [0xDFFF]))))
     \<lparr>query = lit ''price?'', category = lit ''products'', answer = [],
      metadata = [(lit ''classifier'', PStr (lit ''success''))]\<rparr> 1 =
     (Inl (Exception ([39] @ lit ''utf-8'' @ [39] @ lit '' codec can't encode character '' @
                      [39, 92] @ lit ''udfff'' @ [39] @
                      lit '' in position 21: surrogates not allowed'')), 4)"
proof -
  let ?state = "\<lparr>query = lit ''price?'', category = lit ''products'', answer = [],
      metadata = [(lit ''classifier'', PStr (lit ''success''))]\<rparr>"
  let ?down = "stub_workflow (Inr (AIMessage (Text (lit ''products''))))
        (Inl (BaseException (lit ''shutting down''))) (Inr (lit ''ok''))"
  let ?bad = "stub_workflow (Inr (AIMessage (Text (lit ''products'')))) (Inr [chunk 0])
        (Inl (Exception (lit ''timeout '' @ [0xDFFF])))"
  have "get_context_and_answer (rag_chain ?down) (query ?state) 1 =
          (Inl (BaseException (lit ''shutting down'')), 2)"
    by (simp add: get_context_and_answer_def stub_workflow_def stub_call_def)
  note a = rag_responder_node_uncaught [OF this]
  have "get_context_and_answer (rag_chain ?bad) (query ?state) 1 =
          (Inl (Exception (lit ''timeout '' @ [0xDFFF])), 4)"
    by (simp add: get_context_and_answer_def rag_chain_invoke_def stub_workflow_def stub_call_def)
  moreover have "\<not> encodable (lit ''timeout '' @ [0xDFFF])"
    by (simp add: encodable_append encodable_Cons surrogate_def)
  ultimately have "rag_responder_node ?bad ?state 1 =
      (Inl (Exception (codec_error (0x274C # lit '' RAG error: '' @ lit ''timeout '' @ [0xDFFF]))), 4)"
    by (rule rag_responder_node_unprintable)
  then have b: "rag_responder_node ?bad ?state 1 =
     (Inl (Exception ([39] @ lit ''utf-8'' @ [39] @ lit '' codec can't encode character '' @
                      [39, 92] @ lit ''udfff'' @ [39] @
                      lit '' in position 21: surrogates not allowed'')), 4)"
    by (simp add: codec_error_def surrogate_def lit_def hex4_def hex_digit_def Let_def)
  from a b show ?thesis by (intro conjI)
qed

subsection \<open>C6: the Escalate node\<close>

text \<open>
  C6. The answer of \<open>escalation_node\<close> is one of two constant texts, chosen by the
  category alone: the support information when the category is \<open>general\<close>, the
  apology for every other category. Neither depends on the query. Both contain the
  support e-mail address and the support hours, the second one opens with the apology,
  and the two differ. The node sets the \<open>escalation\<close> entry of the metadata to \<open>True\<close>
  and leaves query and category as they were.
\<close>

theorem escalation_node_messages:
  "answer (escalation_node state) =
     (if category state = lit ''general'' then escalation_message_general
      else escalation_message_other) \<and>
   map_of (metadata (escalation_node state)) (lit ''escalation'') = Some (PBool True) \<and>
   query (escalation_node state) = query state \<and>
   category (escalation_node state) = category state \<and>
   sublist (lit ''support@techgear.com'') escalation_message_general \<and>
   sublist (lit ''Support Hours: Monday-Saturday, 9AM-6PM IST'') escalation_message_general \<and>
   sublist (lit ''I apologize, but I'm unable to assist with that specific request.'')
     escalation_message_other \<and>
   sublist (lit ''support@techgear.com'') escalation_message_other \<and>
   sublist (lit ''Support Hours: Monday-Saturday, 9AM-6PM IST'') escalation_message_other \<and>
   escalation_message_general \<noteq> escalation_message_other"
proof -
  have e1: "sublist (lit ''support@techgear.com'') escalation_message_general"
    by (rule sublist_witness
          [where ps = "lit ''For general inquiries and support:\<newline>\<newline>'' @ [0x1F4E7] @ lit '' Email: ''"
             and ss = "lit ''\<newline>'' @ [0x23F0] @
                       lit '' Support Hours: Monday-Saturday, 9AM-6PM IST\<newline>\<newline>'' @
                       lit ''Our team will be happy to assist you with your questions!''"])
       (simp add: escalation_message_general_def lit_append [symmetric] lit_eq_iff)
  have h1: "sublist (lit ''Support Hours: Monday-Saturday, 9AM-6PM IST'') escalation_message_general"
    by (rule sublist_witness
          [where ps = "lit ''For general inquiries and support:\<newline>\<newline>'' @ [0x1F4E7] @
                       lit '' Email: support@techgear.com\<newline>'' @ [0x23F0] @ lit '' ''"
             and ss = "lit ''\<newline>\<newline>'' @
                       lit ''Our team will be happy to assist you with your questions!''"])
       (simp add: escalation_message_general_def lit_append [symmetric] lit_eq_iff)
  have a2: "sublist (lit ''I apologize, but I'm unable to assist with that specific request.'')
              escalation_message_other"
    by (rule sublist_witness
          [where ps = "[]"
             and ss = "lit ''\<newline>\<newline>'' @
                       lit ''For personalized support, please contact our team:\<newline>'' @
                       [0x1F4E7] @ lit '' Email: support@techgear.com\<newline>'' @
                       [0x23F0] @ lit '' Support Hours: Monday-Saturday, 9AM-6PM IST\<newline>\<newline>'' @
                       lit ''Our support team will be happy to help you!''"])
       (simp add: escalation_message_other_def lit_append [symmetric] lit_eq_iff)
  have e2: "sublist (lit ''support@techgear.com'') escalation_message_other"
    by (rule sublist_witness
          [where ps = "lit ''I apologize, but I'm unable to assist with that specific request.\<newline>\<newline>'' @
                       lit ''For personalized support, please contact our team:\<newline>'' @
                       [0x1F4E7] @ lit '' Email: ''"
             and ss = "lit ''\<newline>'' @ [0x23F0] @
                       lit '' Support Hours: Monday-Saturday, 9AM-6PM IST\<newline>\<newline>'' @
                       lit ''Our support team will be happy to help you!''"])
       (simp add: escalation_message_other_def lit_append [symmetric] lit_eq_iff)
  have h2: "sublist (lit ''Support Hours: Monday-Saturday, 9AM-6PM IST'') escalation_message_other"
    by (rule sublist_witness
          [where ps = "lit ''I apologize, but I'm unable to assist with that specific request.\<newline>\<newline>'' @
                       lit ''For personalized support, please contact our team:\<newline>'' @
                       [0x1F4E7] @ lit '' Email: support@techgear.com\<newline>'' @ [0x23F0] @ lit '' ''"
             and ss = "lit ''\<newline>\<newline>'' @
                       lit ''Our support team will be happy to help you!''"])
       (simp add: escalation_message_other_def lit_append [symmetric] lit_eq_iff)
  have ne: "escalation_message_general \<noteq> escalation_message_other"
    by (simp add: escalation_message_general_def escalation_message_other_def lit_def)
  from e1 h1 a2 e2 h2 ne show ?thesis
    by (simp add: escalation_node_fields map_of_setitem)
qed

subsection \<open>C7: empty retrieval\<close>

text \<open>
  C7. The context is the texts of the retrieved chunks in the order of retrieval, joined
  by a blank line; for no chunks it is the empty string. The chain hands the prompt
  rendered with that context to the generation model whatever the chunks are. So when
  both retrievals of the Respond path return no chunk, the generation model is still
  called, with the prompt rendered for the empty context, and its outcome is the outcome
  of \<open>get_context_and_answer\<close>: its exception, or its answer together with an empty
  context and no sources.
\<close>

theorem empty_retrieval_still_generates:
  "format_docs [] = [] \<and>
   (\<forall>d ds. format_docs (d # ds) =
      (if ds = [] then page_content d
       else page_content d @ lit ''\<newline>\<newline>'' @ format_docs ds)) \<and>
   (\<forall>docs w1. retriever c q w = (Inr docs, w1) \<longrightarrow>
      rag_chain_invoke c q w = llm c (prompt_template (format_docs docs) q) w1) \<and>
   (\<forall>w1 w2. retriever c q w = (Inr [], w1) \<and> retriever c q w1 = (Inr [], w2) \<longrightarrow>
      rag_chain_invoke c q w1 = llm c (prompt_template [] q) w2 \<and>
      get_context_and_answer c q w =
        (case llm c (prompt_template [] q) w2 of
           (Inl e, w3) \<Rightarrow> (Inl e, w3)
         | (Inr a, w3) \<Rightarrow>
             (Inr \<lparr>rr_query = q, rr_context = [], rr_answer = a, rr_sources = []\<rparr>, w3)))"
proof -
  have empty: "format_docs [] = []"
    by (simp add: format_docs_def)
  have "rag_chain_invoke c q w1 = llm c (prompt_template [] q) w2 \<and>
      get_context_and_answer c q w =
        (case llm c (prompt_template [] q) w2 of
           (Inl e, w3) \<Rightarrow> (Inl e, w3)
         | (Inr a, w3) \<Rightarrow>
             (Inr \<lparr>rr_query = q, rr_context = [], rr_answer = a, rr_sources = []\<rparr>, w3))"
    if "retriever c q w = (Inr [], w1)" and "retriever c q w1 = (Inr [], w2)" for w1 w2
    using rag_chain_invoke_retrieved [OF that(2)] gca_retrieved [OF that]
    by (simp add: empty split: prod.splits sum.splits)
  then have both: "\<forall>w1 w2. retriever c q w = (Inr [], w1) \<and> retriever c q w1 = (Inr [], w2) \<longrightarrow>
      rag_chain_invoke c q w1 = llm c (prompt_template [] q) w2 \<and>
      get_context_and_answer c q w =
        (case llm c (prompt_template [] q) w2 of
           (Inl e, w3) \<Rightarrow> (Inl e, w3)
         | (Inr a, w3) \<Rightarrow>
             (Inr \<lparr>rr_query = q, rr_context = [], rr_answer = a, rr_sources = []\<rparr>, w3))"
    by simp
  have order: "\<forall>d ds. format_docs (d # ds) =
      (if ds = [] then page_content d
       else page_content d @ lit ''\<newline>\<newline>'' @ format_docs ds)"
    by (simp only: format_docs_Cons) simp
  have chain: "\<forall>docs w1. retriever c q w = (Inr docs, w1) \<longrightarrow>
      rag_chain_invoke c q w = llm c (prompt_template (format_docs docs) q) w1"
    by (simp add: rag_chain_invoke_retrieved)
  from empty order chain both show ?thesis
    by (intro conjI)
qed

text \<open>
  A retriever that finds nothing and a model that repeats its prompt: the answer is the
  prompt rendered with the empty context, after three calls. With two chunks, the
  prompt holds their texts in order.
\<close>

theorem empty_retrieval_still_generates_witness:
  "get_context_and_answer \<lparr>retriever = (\<lambda>q. stub_call (Inr [])), llm = echo_llm\<rparr>
     (lit ''price?'') 0 =
     (Inr \<lparr>rr_query = lit ''price?'', rr_context = [],
           rr_answer = prompt_template [] (lit ''price?''), rr_sources = []\<rparr>, 3) \<and>
   rag_chain_invoke \<lparr>retriever = (\<lambda>q. stub_call (Inr [chunk 0, chunk 1])), llm = echo_llm\<rparr>
     (lit ''price?'') 0 =
     (Inr (prompt_template (lit ''SmartWatch Pro X: 15,999\<newline>\<newline>Returns: within 7 days'') (lit ''price?'')), 2)"
proof -
  let ?c = "\<lparr>retriever = (\<lambda>q. stub_call (Inr [])), llm = echo_llm\<rparr>"
  let ?d = "\<lparr>retriever = (\<lambda>q. stub_call (Inr [chunk 0, chunk 1])), llm = echo_llm\<rparr>"
  have a: "get_context_and_answer ?c (lit ''price?'') 0 =
     (Inr \<lparr>rr_query = lit ''price?'', rr_context = [],
           rr_answer = prompt_template [] (lit ''price?''), rr_sources = []\<rparr>, 3)"
    using empty_retrieval_still_generates [of ?c "lit ''price?''" 0, THEN conjunct2, THEN conjunct2, THEN conjunct2]
    by (simp add: stub_call_def echo_llm_def)
  have b: "rag_chain_invoke ?d (lit ''price?'') 0 =
     (Inr (prompt_template (lit ''SmartWatch Pro X: 15,999\<newline>\<newline>Returns: within 7 days'') (lit ''price?'')), 2)"
    using empty_retrieval_still_generates [of ?d "lit ''price?''" 0, THEN conjunct2, THEN conjunct2, THEN conjunct1]
    by (simp add: stub_call_def echo_llm_def format_docs_def chunk_def lit_append [symmetric] lit_eq_iff)
  from a b show ?thesis by blast
qed

subsection \<open>C8: the request boundary\<close>

text \<open>
  C8, as amended. A request is answered in one of four ways, and three of them are
  failures.
  \<^item> A body that fails the validation of \<open>ChatRequest\<close>, in particular one whose
    \<open>query\<close> is missing or empty, is rejected with status 422; the world is unchanged,
    so the workflow was not called.
  \<^item> A valid request while no workflow is set gets status 503.
  \<^item> A valid request whose workflow raises an instance of \<open>Exception\<close> with text
    \<open>msg\<close> gets status 500 with the detail \<open>Error processing query: \<close> followed by
    \<open>msg\<close>.
  \<^item> Otherwise the turn result is returned with status 200.
  No other status is answered. An exception of the workflow outside \<open>Exception\<close> is not
  answered at all: it leaves the handler, and nothing else does.
\<close>

theorem post_chat_failures:
  "(ChatRequest body = None \<longrightarrow> post_chat workflow body w = (Inr RequestValidationError, w)) \<and>
   (\<forall>d. body = PDict d \<and>
        (map_of d (lit ''query'') = None \<or> map_of d (lit ''query'') = Some (PStr [])) \<longrightarrow>
      ChatRequest body = None) \<and>
   (\<forall>q. ChatRequest body = Some q \<and> workflow = None \<longrightarrow>
      post_chat workflow body w =
        (Inr (HTTPException 503
                (lit ''Chatbot service is not initialized. Please try again later.'')), w)) \<and>
   (\<forall>q f msg w1. ChatRequest body = Some q \<and> workflow = Some f \<and>
                  f q w = (Inl (Exception msg), w1) \<longrightarrow>
      post_chat workflow body w =
        (Inr (HTTPException 500 (lit ''Error processing query: '' @ msg)), w1)) \<and>
   (\<forall>q f msg w1. ChatRequest body = Some q \<and> workflow = Some f \<and>
                  f q w = (Inl (BaseException msg), w1) \<longrightarrow>
      post_chat workflow body w = (Inl (BaseException msg), w1)) \<and>
   (\<forall>q f result w1. ChatRequest body = Some q \<and> workflow = Some f \<and> f q w = (Inr result, w1) \<longrightarrow>
      post_chat workflow body w =
        (Inr (OK \<lparr>cr_query = query result, cr_answer = answer result,
                  cr_category = Some (category result),
                  cr_metadata = Some (metadata result)\<rparr>), w1)) \<and>
   (case fst (post_chat workflow body w) of
      Inr response \<Rightarrow> status_code response \<in> {200, 422, 503, 500}
    | Inl e \<Rightarrow> (\<exists>msg. e = BaseException msg))"
proof -
  have kinds: "case fst (post_chat workflow body w) of
      Inr response \<Rightarrow> status_code response \<in> {200, 422, 503, 500}
    | Inl e \<Rightarrow> (\<exists>msg. e = BaseException msg)"
    by (simp add: post_chat_def chat_def split: option.splits prod.splits sum.splits exn.splits)
  have rejected: "ChatRequest body = None" if "body = PDict d"
    and "map_of d (lit ''query'') = None \<or> map_of d (lit ''query'') = Some (PStr [])" for d
    using that by auto
  from kinds rejected show ?thesis
    by (simp add: post_chat_def chat_def)
qed

text \<open>
  A body without query and one with an empty query (the workflow given would count its
  calls: none is made), no workflow, a workflow that raises an instance of
  \<open>Exception\<close>, one that raises outside \<open>Exception\<close>, a workflow that answers.
\<close>

theorem post_chat_failures_witness:
  "post_chat (Some (\<lambda>q w. (Inl (Exception (lit ''unreachable'')), Suc w))) (PDict []) (0::nat) =
     (Inr RequestValidationError, 0) \<and>
   post_chat (Some (\<lambda>q w. (Inl (Exception (lit ''unreachable'')), Suc w)))
     (PDict [(lit ''query'', PStr [])]) (0::nat) = (Inr RequestValidationError, 0) \<and>
   post_chat None (PDict [(lit ''query'', PStr (lit ''price?''))]) (0::nat) =
     (Inr (HTTPException 503
             (lit ''Chatbot service is not initialized. Please try again later.'')), 0) \<and>
   post_chat (Some (\<lambda>q w. (Inl (Exception (lit ''graph crashed'')), Suc w)))
     (PDict [(lit ''query'', PStr (lit ''price?''))]) (0::nat) =
     (Inr (HTTPException 500 (lit ''Error processing query: graph crashed'')), 1) \<and>
   post_chat (Some (\<lambda>q w. (Inl (BaseException (lit ''shutting down'')), Suc w)))
     (PDict [(lit ''query'', PStr (lit ''price?''))]) (0::nat) =
     (Inl (BaseException (lit ''shutting down'')), 1) \<and>
   post_chat (Some (\<lambda>q w. (Inr \<lparr>query = q, category = lit ''general'',
                                    answer = escalation_message_general,
                                    metadata = [(lit ''escalation'', PBool True)]\<rparr>, Suc w)))
     (PDict [(lit ''query'', PStr (lit ''hours?''))]) (0::nat) =
     (Inr (OK \<lparr>cr_query = lit ''hours?'', cr_answer = escalation_message_general,
               cr_category = Some (lit ''general''),
               cr_metadata = Some [(lit ''escalation'', PBool True)]\<rparr>), 1)"
proof -
  let ?crash = "Some (\<lambda>q (w::nat). (Inl (Exception (lit ''unreachable'')) :: exn + graph_state, Suc w))"
  let ?fail = "Some (\<lambda>q (w::nat). (Inl (Exception (lit ''graph crashed'')) :: exn + graph_state, Suc w))"
  let ?down = "Some (\<lambda>q (w::nat). (Inl (BaseException (lit ''shutting down'')) :: exn + graph_state, Suc w))"
  let ?ok = "Some (\<lambda>q (w::nat). (Inr \<lparr>query = q, category = lit ''general'',
                                    answer = escalation_message_general,
                                    metadata = [(lit ''escalation'', PBool True)]\<rparr> :: exn + graph_state, Suc w))"
  let ?valid = "PDict [(lit ''query'', PStr (lit ''price?''))]"
  have a: "post_chat ?crash (PDict []) 0 = (Inr RequestValidationError, 0)"
    using post_chat_failures [of "PDict []" ?crash 0] by simp
  have b: "post_chat ?crash (PDict [(lit ''query'', PStr [])]) 0 = (Inr RequestValidationError, 0)"
    using post_chat_failures [of "PDict [(lit ''query'', PStr [])]" ?crash 0] by simp
  have c: "post_chat None ?valid (0::nat) =
     (Inr (HTTPException 503
             (lit ''Chatbot service is not initialized. Please try again later.'')), 0)"
    using post_chat_failures [of ?valid None "0::nat"] by (simp add: length_lit)
  have d: "post_chat ?fail ?valid 0 =
     (Inr (HTTPException 500 (lit ''Error processing query: graph crashed'')), 1)"
    using post_chat_failures [of ?valid ?fail 0]
    by (simp add: length_lit lit_append [symmetric])
  have d': "post_chat ?down ?valid 0 = (Inl (BaseException (lit ''shutting down'')), 1)"
    using post_chat_failures [of ?valid ?down 0]
    by (simp add: length_lit)
  have e: "post_chat ?ok (PDict [(lit ''query'', PStr (lit ''hours?''))]) 0 =
     (Inr (OK \<lparr>cr_query = lit ''hours?'', cr_answer = escalation_message_general,
               cr_category = Some (lit ''general''),
               cr_metadata = Some [(lit ''escalation'', PBool True)]\<rparr>), 1)"
    using post_chat_failures [of "PDict [(lit ''query'', PStr (lit ''hours?''))]" ?ok 0]
    by (simp add: length_lit)
  from a b c d d' e show ?thesis by (intro conjI)
qed

text \<open>
  C8 as stated fails: an exception outside \<open>Exception\<close> that escapes the workflow is
  not reported with status 500; \<open>except Exception\<close> does not catch it.
\<close>

theorem post_chat_uncaught_counterexample:
  "post_chat (Some (\<lambda>q w. (Inl (BaseException (lit ''interrupted'')), Suc w)))
     (PDict [(lit ''query'', PStr (lit ''What is the price of SmartWatch Pro X?''))]) (0::nat) =
     (Inl (BaseException (lit ''interrupted'')), 1)"
  by (simp add: post_chat_def chat_def length_lit)

subsection \<open>C9: the same query twice\<close>

text \<open>
  C9. When the results of the classifier, the retriever and the generation model do not
  depend on the state of the world, two runs of \<open>invoke\<close> on the same query, one after
  the other, end the same way. When the first returns a turn result, the second returns
  one with the same category and the same answer (the whole turn results are equal).
  Both do return when the query is printable and the collaborators raise only exceptions
  that are caught and printable.
\<close>

theorem invoke_twice_same_result:
  assumes "deterministic (classifier_llm self)"
    and "deterministic (retriever (rag_chain self))"
    and "deterministic (llm (rag_chain self))"
  shows "fst (invoke self q (snd (invoke self q w))) = fst (invoke self q w) \<and>
         (\<forall>s1 w1. invoke self q w = (Inr s1, w1) \<longrightarrow>
            (\<exists>s2 w2. invoke self q w1 = (Inr s2, w2) \<and>
               category s2 = category s1 \<and> answer s2 = answer s1 \<and> s2 = s1)) \<and>
         (encodable q \<and> raises_only_handled (classifier_llm self) \<and>
          raises_only_handled (retriever (rag_chain self)) \<and> raises_only_handled (llm (rag_chain self)) \<longrightarrow>
            (\<exists>s1 w1 s2 w2. invoke self q w = (Inr s1, w1) \<and> invoke self q w1 = (Inr s2, w2) \<and>
               category s2 = category s1 \<and> answer s2 = answer s1 \<and> s2 = s1))"
proof -
  note same = invoke_deterministic_fst [OF assms, of q]
  have again: "\<exists>s2 w2. invoke self q w1 = (Inr s2, w2) \<and>
               category s2 = category s1 \<and> answer s2 = answer s1 \<and> s2 = s1"
    if "invoke self q w = (Inr s1, w1)" for s1 w1
  proof -
    from same [of w1 w] that have "fst (invoke self q w1) = Inr s1" by simp
    then show ?thesis by (cases "invoke self q w1") simp
  qed
  have both: "\<exists>s1 w1 s2 w2. invoke self q w = (Inr s1, w1) \<and> invoke self q w1 = (Inr s2, w2) \<and>
               category s2 = category s1 \<and> answer s2 = answer s1 \<and> s2 = s1"
    if "encodable q \<and> raises_only_handled (classifier_llm self) \<and>
        raises_only_handled (retriever (rag_chain self)) \<and> raises_only_handled (llm (rag_chain self))"
  proof -
    from that invoke_no_raise [of q self w] obtain s1 w1 where "invoke self q w = (Inr s1, w1)"
      by auto
    with again [OF this] show ?thesis by auto
  qed
  from same [of "snd (invoke self q w)" w] again both show ?thesis
    by (intro conjI allI impI)
qed

theorem invoke_twice_same_result_witness:
  "\<exists>s1 w1 s2 w2.
     invoke (stub_workflow (Inr (AIMessage (Text (lit ''returns'')))) (Inr [chunk 1])
               (Inr (lit ''Within 7 days.''))) (lit ''Can I return it?'') 0 = (Inr s1, w1) \<and>
     invoke (stub_workflow (Inr (AIMessage (Text (lit ''returns'')))) (Inr [chunk 1])
               (Inr (lit ''Within 7 days.''))) (lit ''Can I return it?'') w1 = (Inr s2, w2) \<and>
     category s2 = category s1 \<and> answer s2 = answer s1 \<and> s2 = s1"
  using invoke_twice_same_result
    [OF stub_workflow_deterministic,
     of "Inr (AIMessage (Text (lit ''returns'')))" "Inr [chunk 1]" "Inr (lit ''Within 7 days.'')"
        "lit ''Can I return it?''" 0, THEN conjunct2, THEN conjunct2]
  by (simp add: encodable_lit stub_workflow_raises_handled)

subsection \<open>C10: two retrievals\<close>

text \<open>
  C10. \<open>get_context_and_answer\<close> retrieves twice for one query. When the retriever
  returns \<open>docs\<close>, then (called again, by the chain) \<open>docs2\<close>, and the generation
  model answers the prompt rendered from \<open>docs2\<close>, the result reports the context and
  the sources of \<open>docs\<close> with that answer. Conversely every successful result arises
  this way, and for a deterministic retriever \<open>docs2\<close> is \<open>docs\<close>: the reported
  sources are those of the context the model received. For a retriever that is not
  deterministic they can differ: with the retriever that finds chunk 0 first and
  chunk 1 afterwards, the result reports chunk 0 while the model was given chunk 1.
\<close>

theorem retrieval_performed_twice:
  "(\<forall>docs w1 docs2 w2 a w3.
      retriever c q w = (Inr docs, w1) \<and> retriever c q w1 = (Inr docs2, w2) \<and>
      llm c (prompt_template (format_docs docs2) q) w2 = (Inr a, w3) \<longrightarrow>
      get_context_and_answer c q w =
        (Inr \<lparr>rr_query = q, rr_context = format_docs docs, rr_answer = a,
              rr_sources = map doc_metadata docs\<rparr>, w3)) \<and>
   (\<forall>result w'. get_context_and_answer c q w = (Inr result, w') \<longrightarrow>
      (\<exists>docs w1 docs2 w2.
         retriever c q w = (Inr docs, w1) \<and> retriever c q w1 = (Inr docs2, w2) \<and>
         llm c (prompt_template (format_docs docs2) q) w2 = (Inr (rr_answer result), w') \<and>
         rr_sources result = map doc_metadata docs \<and> rr_context result = format_docs docs \<and>
         (deterministic (retriever c) \<longrightarrow> docs2 = docs))) \<and>
   get_context_and_answer \<lparr>retriever = flaky_retriever, llm = echo_llm\<rparr> (lit ''price?'') 0 =
     (Inr \<lparr>rr_query = lit ''price?'', rr_context = format_docs [chunk 0],
           rr_answer = prompt_template (format_docs [chunk 1]) (lit ''price?''),
           rr_sources = map doc_metadata [chunk 0]\<rparr>, 3) \<and>
   format_docs [chunk 1] \<noteq> format_docs [chunk 0]"
proof -
  have twice: "get_context_and_answer c q w =
        (Inr \<lparr>rr_query = q, rr_context = format_docs docs, rr_answer = a,
              rr_sources = map doc_metadata docs\<rparr>, w3)"
    if "retriever c q w = (Inr docs, w1) \<and> retriever c q w1 = (Inr docs2, w2) \<and>
      llm c (prompt_template (format_docs docs2) q) w2 = (Inr a, w3)" for docs w1 docs2 w2 a w3
    using that gca_success [of c q w docs w1 docs2 w2 a w3] by simp
  have inv: "\<exists>docs w1 docs2 w2.
         retriever c q w = (Inr docs, w1) \<and> retriever c q w1 = (Inr docs2, w2) \<and>
         llm c (prompt_template (format_docs docs2) q) w2 = (Inr (rr_answer result), w') \<and>
         rr_sources result = map doc_metadata docs \<and> rr_context result = format_docs docs \<and>
         (deterministic (retriever c) \<longrightarrow> docs2 = docs)"
    if g: "get_context_and_answer c q w = (Inr result, w')" for result w'
  proof -
    from gca_success_inv [OF g] obtain docs w1 docs2 w2 where
      r: "retriever c q w = (Inr docs, w1)" "retriever c q w1 = (Inr docs2, w2)"
      and l: "llm c (prompt_template (format_docs docs2) q) w2 = (Inr (rr_answer result), w')"
      and s: "rr_sources result = map doc_metadata docs" "rr_context result = format_docs docs"
      by auto
    have "deterministic (retriever c) \<longrightarrow> docs2 = docs"
      using deterministic_same_docs [OF _ r] by simp
    with r l s show ?thesis
      by (intro exI [of _ docs] exI [of _ w1] exI [of _ docs2] exI [of _ w2]) simp
  qed
  let ?flaky = "\<lparr>retriever = flaky_retriever, llm = echo_llm\<rparr>"
  have flaky: "get_context_and_answer ?flaky (lit ''price?'') 0 =
     (Inr \<lparr>rr_query = lit ''price?'', rr_context = format_docs [chunk 0],
           rr_answer = prompt_template (format_docs [chunk 1]) (lit ''price?''),
           rr_sources = map doc_metadata [chunk 0]\<rparr>, 3)"
    using gca_success [of ?flaky "lit ''price?''" 0 "[chunk 0]" 1 "[chunk 1]" 2
        "prompt_template (format_docs [chunk 1]) (lit ''price?'')" 3]
    by (simp add: flaky_retriever_def echo_llm_def)
  have differ: "format_docs [chunk 1] \<noteq> format_docs [chunk 0]"
    by (simp add: format_docs_def chunk_def lit_eq_iff)
  from twice have twice': "\<forall>docs w1 docs2 w2 a w3.
      retriever c q w = (Inr docs, w1) \<and> retriever c q w1 = (Inr docs2, w2) \<and>
      llm c (prompt_template (format_docs docs2) q) w2 = (Inr a, w3) \<longrightarrow>
      get_context_and_answer c q w =
        (Inr \<lparr>rr_query = q, rr_context = format_docs docs, rr_answer = a,
              rr_sources = map doc_metadata docs\<rparr>, w3)"
    by (intro allI impI)
  from inv have inv': "\<forall>result w'. get_context_and_answer c q w = (Inr result, w') \<longrightarrow>
      (\<exists>docs w1 docs2 w2.
         retriever c q w = (Inr docs, w1) \<and> retriever c q w1 = (Inr docs2, w2) \<and>
         llm c (prompt_template (format_docs docs2) q) w2 = (Inr (rr_answer result), w') \<and>
         rr_sources result = map doc_metadata docs \<and> rr_context result = format_docs docs \<and>
         (deterministic (retriever c) \<longrightarrow> docs2 = docs))"
    by (intro allI impI)
  from twice' inv' flaky differ show ?thesis
    by (intro conjI)
qed

text \<open>
  A deterministic retriever with two chunks and a model that repeats its prompt: three
  calls are made, both retrievals give the same chunks, and the prompt the model received
  is the one rendered from the chunks whose metadata is reported.
\<close>

theorem retrieval_performed_twice_witness:
  "get_context_and_answer
     \<lparr>retriever = (\<lambda>q. stub_call (Inr [chunk 0, chunk 1])), llm = echo_llm\<rparr> (lit ''price?'') 0 =
     (Inr \<lparr>rr_query = lit ''price?'', rr_context = format_docs [chunk 0, chunk 1],
           rr_answer = prompt_template (format_docs [chunk 0, chunk 1]) (lit ''price?''),
           rr_sources = map doc_metadata [chunk 0, chunk 1]\<rparr>, 3) \<and>
   (\<exists>docs w1 w2.
      stub_call (Inr [chunk 0, chunk 1]) 0 = (Inr docs, w1) \<and>
      stub_call (Inr [chunk 0, chunk 1]) w1 = (Inr docs, w2) \<and>
      echo_llm (prompt_template (format_docs docs) (lit ''price?'')) w2 =
        (Inr (prompt_template (format_docs [chunk 0, chunk 1]) (lit ''price?'')), 3) \<and>
      map doc_metadata [chunk 0, chunk 1] = map doc_metadata docs)"
proof -
  let ?c = "\<lparr>retriever = (\<lambda>q. stub_call (Inr [chunk 0, chunk 1])), llm = echo_llm\<rparr>"
  let ?q = "lit ''price?''"
  let ?r = "\<lparr>rr_query = ?q, rr_context = format_docs [chunk 0, chunk 1],
           rr_answer = prompt_template (format_docs [chunk 0, chunk 1]) ?q,
           rr_sources = map doc_metadata [chunk 0, chunk 1]\<rparr>"
  note t = retrieval_performed_twice [of ?c ?q 0]
  have calls: "retriever ?c ?q 0 = (Inr [chunk 0, chunk 1], 1) \<and>
      retriever ?c ?q 1 = (Inr [chunk 0, chunk 1], 2) \<and>
      llm ?c (prompt_template (format_docs [chunk 0, chunk 1]) ?q) 2 =
        (Inr (prompt_template (format_docs [chunk 0, chunk 1]) ?q), 3)"
    by (simp add: stub_call_def echo_llm_def)
  from t [THEN conjunct1, rule_format, OF calls]
  have a: "get_context_and_answer ?c ?q 0 = (Inr ?r, 3)" .
  have det: "deterministic (retriever ?c)"
    by (simp add: deterministic_def stub_call_def)
  from t [THEN conjunct2, THEN conjunct1, rule_format, OF a]
  obtain docs w1 docs2 w2 where
    r1: "retriever ?c ?q 0 = (Inr docs, w1)" and r2: "retriever ?c ?q w1 = (Inr docs2, w2)"
    and l: "llm ?c (prompt_template (format_docs docs2) ?q) w2 = (Inr (rr_answer ?r), 3)"
    and s: "rr_sources ?r = map doc_metadata docs"
    and d: "deterministic (retriever ?c) \<longrightarrow> docs2 = docs"
    by (elim exE conjE)
  from d det have same: "docs2 = docs" by (rule mp)
  have b: "\<exists>docs w1 w2.
      stub_call (Inr [chunk 0, chunk 1]) 0 = (Inr docs, w1) \<and>
      stub_call (Inr [chunk 0, chunk 1]) w1 = (Inr docs, w2) \<and>
      echo_llm (prompt_template (format_docs docs) ?q) w2 =
        (Inr (prompt_template (format_docs [chunk 0, chunk 1]) ?q), 3) \<and>
      map doc_metadata [chunk 0, chunk 1] = map doc_metadata docs"
    using r1 r2 l s unfolding same
    by (intro exI [of _ docs] exI [of _ w1] exI [of _ w2]) simp
  from a b show ?thesis by (intro conjI)
qed

end
